theory Spec2Isabelle
  imports Complex_Main "HOL-Library.Sublist"
begin

section \<open>Identity and access control\<close>

text \<open>
  The embedding follows \<^verbatim>\<open>middleware/verifyToken.js\<close> (\<^verbatim>\<open>verifyToken\<close>,
  \<^verbatim>\<open>authorizeRoles\<close>), \<^verbatim>\<open>middleware/auth.js\<close> (\<^verbatim>\<open>protect\<close>, \<^verbatim>\<open>authorize\<close>),
  \<^verbatim>\<open>utils/jwtHelper.js\<close> and the routes of \<^verbatim>\<open>routes/auth.js\<close>.

  Strings are byte lists; the Turkish letters of the messages are written as their UTF-8 bytes.
  The libraries the code calls (jsonwebtoken, the Mongoose models, bcrypt, express-validator)
  are parameters of the model, gathered in \<open>auth_env\<close>. A call that may throw returns an
  \<open>outcome\<close>; \<open>Throws n\<close> carries the \<^verbatim>\<open>error.name\<close> the catch blocks inspect.
\<close>

datatype 'a outcome = Returns 'a | Throws string

text \<open>The decoded payload: \<^verbatim>\<open>decoded.id\<close> and \<^verbatim>\<open>decoded.userType\<close> (absent: \<open>None\<close>).\<close>

record claims =
  claim_id :: string
  claim_userType :: "string option"

text \<open>The fields of a User or Student document that the access-control code reads or writes.\<close>

record principal =
  uid :: string
  isActive :: bool
  userType :: "string option"
  role :: "string option"
  password :: string
  lastLogin :: "int option"

record auth_env =
  jwt_verify :: "string \<Rightarrow> claims outcome"
  jwt_sign :: "claims \<Rightarrow> string"
  Student_findById :: "string \<Rightarrow> principal option outcome"
  User_findById :: "string \<Rightarrow> principal option outcome"
  User_findOne :: "string \<Rightarrow> principal option outcome"
  Student_findOne :: "string \<Rightarrow> principal option outcome"
  doc_save :: "principal \<Rightarrow> unit outcome"
  bcrypt_compare :: "string \<Rightarrow> string \<Rightarrow> bool"
  isEmail :: "string \<Rightarrow> bool"
  normalizeEmail :: "string \<Rightarrow> string"
  trim :: "string \<Rightarrow> string"

record request =
  authorization :: "string option"
  cookie_token :: "string option"
  user :: "principal option"

text \<open>The JSON body \<^verbatim>\<open>{success, message, code}\<close> with its HTTP status; \<open>code = None\<close> when
  the body has no \<^verbatim>\<open>code\<close> field.\<close>

record response =
  status :: nat
  success :: bool
  message :: string
  code :: "string option"

datatype mw_result = Respond response | Next request

subsection \<open>Credential extraction\<close>

text \<open>\<^verbatim>\<open>s.split(c)\<close> for a one-character separator.\<close>

fun split_on :: "char \<Rightarrow> string \<Rightarrow> string list" where
  "split_on c [] = [[]]"
| "split_on c (x # xs) =
     (if x = c then [] # split_on c xs
      else (case split_on c xs of [] \<Rightarrow> [[x]] | w # ws \<Rightarrow> (x # w) # ws))"

text \<open>\<^verbatim>\<open>xs[i]\<close>: \<^verbatim>\<open>undefined\<close> out of range.\<close>

definition at_index :: "'a list \<Rightarrow> nat \<Rightarrow> 'a option" where
  "at_index xs i = (if i < length xs then Some (xs ! i) else None)"

text \<open>JavaScript truthiness of a value that is a string or \<^verbatim>\<open>undefined\<close>.\<close>

definition truthy :: "string option \<Rightarrow> bool" where
  "truthy v = (case v of None \<Rightarrow> False | Some s \<Rightarrow> s \<noteq> [])"

text \<open>
  The extraction block that opens \<^verbatim>\<open>verifyToken\<close>, \<^verbatim>\<open>protect\<close>, both \<^verbatim>\<open>optionalAuth\<close>
  and \<^verbatim>\<open>GET /api/auth/check\<close>:
  \<^verbatim>\<open>if (req.headers.authorization && req.headers.authorization.startsWith('Bearer'))
    token = req.headers.authorization.split(' ')[1];
  else if (req.cookies.token) token = req.cookies.token;\<close>
\<close>

definition extractToken :: "request \<Rightarrow> string option" where
  "extractToken req =
     (case authorization req of
        Some h \<Rightarrow>
          (if h \<noteq> [] \<and> prefix ''Bearer'' h then at_index (split_on CHR '' '' h) 1
           else if truthy (cookie_token req) then cookie_token req else None)
      | None \<Rightarrow> if truthy (cookie_token req) then cookie_token req else None)"

subsection \<open>Messages\<close>

definition msg_no_token :: string where
  "msg_no_token = ''Eri'' @ [CHR 0xC5, CHR 0x9F] @ ''im reddedildi. L'' @ [CHR 0xC3, CHR 0xBC]
     @ ''tfen giri'' @ [CHR 0xC5, CHR 0x9F] @ '' yap'' @ [CHR 0xC4, CHR 0xB1] @ ''n''
     @ [CHR 0xC4, CHR 0xB1] @ ''z.''"

definition msg_student_not_found :: string where
  "msg_student_not_found =
     [CHR 0xC3, CHR 0x96, CHR 0xC4, CHR 0x9F] @ ''renci bulunamad'' @ [CHR 0xC4, CHR 0xB1]"

definition msg_user_not_found :: string where
  "msg_user_not_found = ''Kullan'' @ [CHR 0xC4, CHR 0xB1] @ ''c'' @ [CHR 0xC4, CHR 0xB1]
     @ '' bulunamad'' @ [CHR 0xC4, CHR 0xB1]"

definition msg_invalid_user_type :: string where
  "msg_invalid_user_type = ''Ge'' @ [CHR 0xC3, CHR 0xA7] @ ''ersiz kullan'' @ [CHR 0xC4, CHR 0xB1]
     @ ''c'' @ [CHR 0xC4, CHR 0xB1] @ '' tipi''"

definition msg_account_deactivated :: string where
  "msg_account_deactivated = ''Hesab'' @ [CHR 0xC4, CHR 0xB1] @ ''n'' @ [CHR 0xC4, CHR 0xB1]
     @ ''z deaktif durumda''"

definition msg_token_unverified :: string where
  "msg_token_unverified = ''Token do'' @ [CHR 0xC4, CHR 0x9F] @ ''rulanamad'' @ [CHR 0xC4, CHR 0xB1]"

definition msg_token_expired :: string where
  "msg_token_expired = ''Token s'' @ [CHR 0xC3, CHR 0xBC] @ ''resi dolmu'' @ [CHR 0xC5, CHR 0x9F]"

definition msg_invalid_token :: string where
  "msg_invalid_token = ''Ge'' @ [CHR 0xC3, CHR 0xA7] @ ''ersiz token''"

definition msg_login_first :: string where
  "msg_login_first = [CHR 0xC3, CHR 0x96] @ ''nce giri'' @ [CHR 0xC5, CHR 0x9F] @ '' yapmal''
     @ [CHR 0xC4, CHR 0xB1] @ ''s'' @ [CHR 0xC4, CHR 0xB1] @ ''n'' @ [CHR 0xC4, CHR 0xB1] @ ''z''"

definition msg_protect_no_token :: string where
  "msg_protect_no_token = ''Eri'' @ [CHR 0xC5, CHR 0x9F] @ ''im reddedildi. L''
     @ [CHR 0xC3, CHR 0xBC] @ ''tfen giri'' @ [CHR 0xC5, CHR 0x9F] @ '' yap'' @ [CHR 0xC4, CHR 0xB1]
     @ ''n.''"

definition msg_protect_deactivated :: string where
  "msg_protect_deactivated = ''Hesap deaktif durumda''"

definition msg_access_denied :: string where
  "msg_access_denied = ''Eri'' @ [CHR 0xC5, CHR 0x9F] @ ''im reddedildi''"

definition msg_not_permitted :: string where
  "msg_not_permitted = ''Bu i'' @ [CHR 0xC5, CHR 0x9F] @ ''lem i'' @ [CHR 0xC3, CHR 0xA7]
     @ ''in yetkiniz yok''"

definition reject :: "nat \<Rightarrow> string \<Rightarrow> string option \<Rightarrow> mw_result" where
  "reject st msg c = Respond \<lparr>status = st, success = False, message = msg, code = c\<rparr>"

subsection \<open>The strict middleware of verifyToken.js\<close>

text \<open>The catch block of \<^verbatim>\<open>verifyToken\<close>, on \<^verbatim>\<open>error.name\<close>.\<close>

definition verifyToken_catch :: "string \<Rightarrow> mw_result" where
  "verifyToken_catch name =
     (if name = ''TokenExpiredError'' then reject 401 msg_token_expired (Some ''TOKEN_EXPIRED'')
      else if name = ''JsonWebTokenError'' then reject 401 msg_invalid_token (Some ''TOKEN_MALFORMED'')
      else reject 401 msg_token_unverified (Some ''TOKEN_INVALID''))"

text \<open>The tail of the try block, once \<^verbatim>\<open>user\<close> is loaded: the active check, then
  \<^verbatim>\<open>user.userType = userType; req.user = user; next()\<close>.\<close>

definition verifyToken_admit :: "request \<Rightarrow> string option \<Rightarrow> principal \<Rightarrow> mw_result" where
  "verifyToken_admit req ut u =
     (if \<not> isActive u then reject 401 msg_account_deactivated (Some ''ACCOUNT_DEACTIVATED'')
      else Next (req\<lparr>user := Some (u\<lparr>userType := ut\<rparr>)\<rparr>))"

definition verifyToken :: "auth_env \<Rightarrow> request \<Rightarrow> mw_result" where
  "verifyToken env req =
     (case extractToken req of
        None \<Rightarrow> reject 401 msg_no_token (Some ''NO_TOKEN'')
      | Some token \<Rightarrow>
          if token = [] then reject 401 msg_no_token (Some ''NO_TOKEN'')
          else
            (case jwt_verify env token of
               Throws name \<Rightarrow> verifyToken_catch name
             | Returns decoded \<Rightarrow>
                 if claim_userType decoded = Some ''student'' then
                   (case Student_findById env (claim_id decoded) of
                      Throws name \<Rightarrow> verifyToken_catch name
                    | Returns None \<Rightarrow> reject 401 msg_student_not_found (Some ''USER_NOT_FOUND'')
                    | Returns (Some u) \<Rightarrow> verifyToken_admit req (claim_userType decoded) u)
                 else if claim_userType decoded = Some ''teacher''
                       \<or> claim_userType decoded = Some ''admin'' then
                   (case User_findById env (claim_id decoded) of
                      Throws name \<Rightarrow> verifyToken_catch name
                    | Returns None \<Rightarrow> reject 401 msg_user_not_found (Some ''USER_NOT_FOUND'')
                    | Returns (Some u) \<Rightarrow> verifyToken_admit req (claim_userType decoded) u)
                 else reject 401 msg_invalid_user_type (Some ''INVALID_USER_TYPE'')))"

text \<open>
  \<^verbatim>\<open>optionalAuth\<close> of \<^verbatim>\<open>verifyToken.js\<close>: the same extraction and lookup, but every
  failure goes on with no principal attached.
\<close>

definition optionalAuth :: "auth_env \<Rightarrow> request \<Rightarrow> mw_result" where
  "optionalAuth env req =
     (case extractToken req of
        None \<Rightarrow> Next req
      | Some token \<Rightarrow>
          if token = [] then Next req
          else
            (case jwt_verify env token of
               Throws name \<Rightarrow> Next req
             | Returns decoded \<Rightarrow>
                 (case (if claim_userType decoded = Some ''student''
                        then Student_findById env (claim_id decoded)
                        else if claim_userType decoded = Some ''teacher''
                              \<or> claim_userType decoded = Some ''admin''
                        then User_findById env (claim_id decoded)
                        else Returns None) of
                    Throws name \<Rightarrow> Next req
                  | Returns None \<Rightarrow> Next req
                  | Returns (Some u) \<Rightarrow>
                      if isActive u
                      then Next (req\<lparr>user := Some (u\<lparr>userType := claim_userType decoded\<rparr>)\<rparr>)
                      else Next req)))"

text \<open>\<^verbatim>\<open>`${v}`\<close> for a value that is a string or \<^verbatim>\<open>undefined\<close>.\<close>

definition render :: "string option \<Rightarrow> string" where
  "render v = (case v of None \<Rightarrow> ''undefined'' | Some s \<Rightarrow> s)"

text \<open>\<^verbatim>\<open>xs.join(sep)\<close>.\<close>

fun join :: "string \<Rightarrow> string list \<Rightarrow> string" where
  "join sep [] = []"
| "join sep [x] = x"
| "join sep (x # y # ys) = x @ sep @ join sep (y # ys)"

definition msg_insufficient :: "string list \<Rightarrow> string option \<Rightarrow> string" where
  "msg_insufficient allowedRoles userRole =
     (''Bu i'' @ [CHR 0xC5, CHR 0x9F] @ ''lem i'' @ [CHR 0xC3, CHR 0xA7] @ ''in '')
     @ join '' veya '' allowedRoles
     @ '' yetkisi gereklidir. Mevcut yetki: '' @ render userRole"

text \<open>\<^verbatim>\<open>allowedRoles.includes(userRole)\<close>: \<^verbatim>\<open>undefined\<close> is no member of a list of strings.\<close>

definition js_includes :: "string list \<Rightarrow> string option \<Rightarrow> bool" where
  "js_includes xs v = (case v of None \<Rightarrow> False | Some s \<Rightarrow> s \<in> set xs)"

definition authorizeRoles :: "string list \<Rightarrow> request \<Rightarrow> mw_result" where
  "authorizeRoles allowedRoles req =
     (case user req of
        None \<Rightarrow> reject 401 msg_login_first (Some ''NOT_AUTHENTICATED'')
      | Some u \<Rightarrow>
          if \<not> js_includes allowedRoles (userType u) then
            reject 403 (msg_insufficient allowedRoles (userType u)) (Some ''INSUFFICIENT_PERMISSION'')
          else Next req)"

subsection \<open>The strict middleware of auth.js\<close>

text \<open>
  In \<^verbatim>\<open>protect\<close> the assignment \<^verbatim>\<open>user.userType = ...\<close> comes before the null check, so a
  missing document raises a TypeError inside the try block and reaches the catch block. No
  response of \<^verbatim>\<open>protect\<close> or \<^verbatim>\<open>authorize\<close> has a \<^verbatim>\<open>code\<close> field.
\<close>

definition protect_admit :: "request \<Rightarrow> principal \<Rightarrow> mw_result" where
  "protect_admit req u =
     (if \<not> isActive u then reject 401 msg_protect_deactivated None
      else Next (req\<lparr>user := Some u\<rparr>))"

definition protect :: "auth_env \<Rightarrow> request \<Rightarrow> mw_result" where
  "protect env req =
     (case extractToken req of
        None \<Rightarrow> reject 401 msg_protect_no_token None
      | Some token \<Rightarrow>
          if token = [] then reject 401 msg_protect_no_token None
          else
            (case jwt_verify env token of
               Throws name \<Rightarrow> reject 401 msg_invalid_token None
             | Returns decoded \<Rightarrow>
                 if claim_userType decoded = Some ''student'' then
                   (case Student_findById env (claim_id decoded) of
                      Throws name \<Rightarrow> reject 401 msg_invalid_token None
                    | Returns None \<Rightarrow> reject 401 msg_invalid_token None
                    | Returns (Some u) \<Rightarrow> protect_admit req (u\<lparr>userType := Some ''student''\<rparr>))
                 else if claim_userType decoded = Some ''teacher''
                       \<or> claim_userType decoded = Some ''admin'' then
                   (case User_findById env (claim_id decoded) of
                      Throws name \<Rightarrow> reject 401 msg_invalid_token None
                    | Returns None \<Rightarrow> reject 401 msg_invalid_token None
                    | Returns (Some u) \<Rightarrow>
                        protect_admit req (u\<lparr>userType := claim_userType decoded\<rparr>))
                 else reject 401 msg_user_not_found None))"

text \<open>\<^verbatim>\<open>a || b\<close> on values that are strings or \<^verbatim>\<open>undefined\<close>.\<close>

definition or_else :: "string option \<Rightarrow> string option \<Rightarrow> string option" where
  "or_else a b = (if truthy a then a else b)"

definition authorize :: "string list \<Rightarrow> request \<Rightarrow> mw_result" where
  "authorize roles req =
     (case user req of
        None \<Rightarrow> reject 401 msg_access_denied None
      | Some u \<Rightarrow>
          if \<not> js_includes roles (or_else (userType u) (role u)) then
            reject 403 msg_not_permitted None
          else Next req)"

subsection \<open>The token helper\<close>

text \<open>\<^verbatim>\<open>verifyToken\<close> of \<^verbatim>\<open>utils/jwtHelper.js\<close>:
  \<^verbatim>\<open>try { return jwt.verify(token, secret) } catch (error) { return null }\<close>.\<close>

definition jwtHelper_verifyToken :: "auth_env \<Rightarrow> string \<Rightarrow> claims option" where
  "jwtHelper_verifyToken env token =
     (case jwt_verify env token of Returns decoded \<Rightarrow> Some decoded | Throws name \<Rightarrow> None)"

subsection \<open>Token issuance and the login routes of routes/auth.js\<close>

definition msg_login_required :: string where
  "msg_login_required = ''Email ve '' @ [CHR 0xC5, CHR 0x9F] @ ''ifre gereklidir''"

definition msg_login_invalid :: string where
  "msg_login_invalid = ''Ge'' @ [CHR 0xC3, CHR 0xA7] @ ''ersiz email veya '' @ [CHR 0xC5, CHR 0x9F]
     @ ''ifre''"

definition msg_student_login_required :: string where
  "msg_student_login_required = [CHR 0xC3, CHR 0x96, CHR 0xC4, CHR 0x9F] @ ''renci numaras''
     @ [CHR 0xC4, CHR 0xB1] @ '' ve '' @ [CHR 0xC5, CHR 0x9F] @ ''ifre gereklidir''"

definition msg_student_login_invalid :: string where
  "msg_student_login_invalid = ''Ge'' @ [CHR 0xC3, CHR 0xA7] @ ''ersiz ''
     @ [CHR 0xC3, CHR 0xB6, CHR 0xC4, CHR 0x9F] @ ''renci numaras'' @ [CHR 0xC4, CHR 0xB1]
     @ '' veya '' @ [CHR 0xC5, CHR 0x9F] @ ''ifre''"

definition msg_student_login_ok :: string where
  "msg_student_login_ok = [CHR 0xC3, CHR 0x96, CHR 0xC4, CHR 0x9F] @ ''renci giri''
     @ [CHR 0xC5, CHR 0x9F] @ ''i ba'' @ [CHR 0xC5, CHR 0x9F] @ ''ar'' @ [CHR 0xC4, CHR 0xB1] @ ''l''
     @ [CHR 0xC4, CHR 0xB1]"

definition msg_teacher_login_ok :: string where
  "msg_teacher_login_ok = [CHR 0xC3, CHR 0x96, CHR 0xC4, CHR 0x9F] @ ''retmen giri''
     @ [CHR 0xC5, CHR 0x9F] @ ''i ba'' @ [CHR 0xC5, CHR 0x9F] @ ''ar'' @ [CHR 0xC4, CHR 0xB1] @ ''l''
     @ [CHR 0xC4, CHR 0xB1]"

text \<open>
  What a login route sends: the status, \<^verbatim>\<open>success\<close> and \<^verbatim>\<open>message\<close> of the body,
  \<^verbatim>\<open>data.token\<close> and the value of the \<^verbatim>\<open>token\<close> cookie when they are set. The
  \<^verbatim>\<open>data.user\<close> projection of \<^verbatim>\<open>sendTokenResponse\<close> is left out.
\<close>

record login_response =
  l_status :: nat
  l_success :: bool
  l_message :: string
  l_token :: "string option"
  l_cookie :: "string option"

datatype login_result = Sent login_response | NextError string

definition login_reject :: "nat \<Rightarrow> string \<Rightarrow> login_result" where
  "login_reject st msg =
     Sent \<lparr>l_status = st, l_success = False, l_message = msg, l_token = None, l_cookie = None\<rparr>"

text \<open>\<^verbatim>\<open>generateToken(user, userType = 'teacher')\<close>: the default replaces \<^verbatim>\<open>undefined\<close>.\<close>

definition generateToken :: "auth_env \<Rightarrow> principal \<Rightarrow> string option \<Rightarrow> string" where
  "generateToken env u ut =
     jwt_sign env \<lparr>claim_id = uid u,
       claim_userType = Some (case ut of None \<Rightarrow> ''teacher'' | Some t \<Rightarrow> t)\<rparr>"

definition sendTokenResponse :: "auth_env \<Rightarrow> principal \<Rightarrow> nat \<Rightarrow> string option \<Rightarrow> login_result" where
  "sendTokenResponse env u statusCode ut =
     (let userType' = (case ut of None \<Rightarrow> ''teacher'' | Some t \<Rightarrow> t);
          token = generateToken env u (Some userType')
      in Sent \<lparr>l_status = statusCode, l_success = True,
               l_message = (if userType' = ''student'' then msg_student_login_ok
                            else msg_teacher_login_ok),
               l_token = Some token, l_cookie = Some token\<rparr>)"

record login_body =
  body_email :: string
  body_studentNumber :: string
  body_password :: string

text \<open>\<^verbatim>\<open>POST /api/auth/login\<close>, at clock reading \<open>now\<close>.\<close>

definition login :: "auth_env \<Rightarrow> int \<Rightarrow> login_body \<Rightarrow> login_result" where
  "login env now body =
     (if \<not> isEmail env (body_email body) \<or> body_password body = [] then
        login_reject 400 msg_login_required
      else
        (case User_findOne env (normalizeEmail env (body_email body)) of
           Throws name \<Rightarrow> NextError name
         | Returns None \<Rightarrow> login_reject 401 msg_login_invalid
         | Returns (Some u) \<Rightarrow>
             if \<not> isActive u then login_reject 401 msg_account_deactivated
             else if \<not> bcrypt_compare env (body_password body) (password u) then
               login_reject 401 msg_login_invalid
             else
               (case doc_save env (u\<lparr>lastLogin := Some now\<rparr>) of
                  Throws name \<Rightarrow> NextError name
                | Returns _ \<Rightarrow> sendTokenResponse env (u\<lparr>lastLogin := Some now\<rparr>) 200 (role u))))"

text \<open>\<^verbatim>\<open>POST /api/auth/student-login\<close>.\<close>

definition studentLogin :: "auth_env \<Rightarrow> int \<Rightarrow> login_body \<Rightarrow> login_result" where
  "studentLogin env now body =
     (if body_studentNumber body = [] \<or> body_password body = [] then
        login_reject 400 msg_student_login_required
      else
        (case Student_findOne env (trim env (body_studentNumber body)) of
           Throws name \<Rightarrow> NextError name
         | Returns None \<Rightarrow> login_reject 401 msg_student_login_invalid
         | Returns (Some u) \<Rightarrow>
             if \<not> isActive u then login_reject 401 msg_account_deactivated
             else if \<not> bcrypt_compare env (body_password body) (password u) then
               login_reject 401 msg_student_login_invalid
             else
               (case doc_save env (u\<lparr>lastLogin := Some now\<rparr>) of
                  Throws name \<Rightarrow> NextError name
                | Returns _ \<Rightarrow>
                    sendTokenResponse env (u\<lparr>lastLogin := Some now\<rparr>) 200 (Some ''student''))))"

text \<open>\<^verbatim>\<open>GET /api/auth/check\<close>: always status 200, with \<^verbatim>\<open>authenticated\<close> and, when
  true, \<^verbatim>\<open>userType\<close>.\<close>

record check_response =
  c_status :: nat
  authenticated :: bool
  c_userType :: "string option"

definition not_authenticated :: check_response where
  "not_authenticated = \<lparr>c_status = 200, authenticated = False, c_userType = None\<rparr>"

definition auth_check :: "auth_env \<Rightarrow> request \<Rightarrow> check_response" where
  "auth_check env req =
     (case extractToken req of
        None \<Rightarrow> not_authenticated
      | Some token \<Rightarrow>
          if token = [] then not_authenticated
          else
            (case jwt_verify env token of
               Throws name \<Rightarrow> not_authenticated
             | Returns decoded \<Rightarrow>
                 (case (if claim_userType decoded = Some ''student''
                        then Student_findById env (claim_id decoded)
                        else User_findById env (claim_id decoded)) of
                    Throws name \<Rightarrow> not_authenticated
                  | Returns None \<Rightarrow> not_authenticated
                  | Returns (Some u) \<Rightarrow>
                      if \<not> isActive u then not_authenticated
                      else \<lparr>c_status = 200, authenticated = True,
                             c_userType = claim_userType decoded\<rparr>)))"

subsection \<open>An example environment\<close>

definition teacher1 :: principal where
  "teacher1 = \<lparr>uid = ''t1'', isActive = True, userType = Some ''teacher'', role = None,
     password = ''hash-t1'', lastLogin = None\<rparr>"

definition student1 :: principal where
  "student1 = \<lparr>uid = ''s1'', isActive = True, userType = None, role = None,
     password = ''hash-s1'', lastLogin = None\<rparr>"

definition teacher2 :: principal where
  "teacher2 = \<lparr>uid = ''t2'', isActive = False, userType = Some ''teacher'', role = None,
     password = ''hash-t2'', lastLogin = None\<rparr>"

definition student2 :: principal where
  "student2 = \<lparr>uid = ''s2'', isActive = False, userType = None, role = None,
     password = ''hash-s2'', lastLogin = None\<rparr>"

definition example_verify :: "string \<Rightarrow> claims outcome" where
  "example_verify t =
     (if t = ''tok-t1'' then Returns \<lparr>claim_id = ''t1'', claim_userType = Some ''teacher''\<rparr>
      else if t = ''tok-s1'' then Returns \<lparr>claim_id = ''s1'', claim_userType = Some ''student''\<rparr>
      else if t = ''tok-t2'' then Returns \<lparr>claim_id = ''t2'', claim_userType = Some ''teacher''\<rparr>
      else if t = ''tok-s2'' then Returns \<lparr>claim_id = ''s2'', claim_userType = Some ''student''\<rparr>
      else if t = ''tok-t9'' then Returns \<lparr>claim_id = ''t9'', claim_userType = Some ''admin''\<rparr>
      else if t = ''tok-p1'' then Returns \<lparr>claim_id = ''p1'', claim_userType = Some ''parent''\<rparr>
      else if t = ''tok-old'' then Throws ''TokenExpiredError''
      else Throws ''JsonWebTokenError'')"

definition example_students :: "string \<Rightarrow> principal option outcome" where
  "example_students i =
     Returns (if i = ''s1'' then Some student1 else if i = ''s2'' then Some student2 else None)"

definition example_users :: "string \<Rightarrow> principal option outcome" where
  "example_users i =
     Returns (if i = ''t1'' then Some teacher1 else if i = ''t2'' then Some teacher2 else None)"

definition example_by_email :: "string \<Rightarrow> principal option outcome" where
  "example_by_email e =
     Returns (if e = ''t1@x.com'' then Some teacher1
              else if e = ''t2@x.com'' then Some teacher2 else None)"

definition example_by_number :: "string \<Rightarrow> principal option outcome" where
  "example_by_number n =
     Returns (if n = ''1001'' then Some student1 else if n = ''1002'' then Some student2 else None)"

definition example_env :: auth_env where
  "example_env = \<lparr>jwt_verify = example_verify,
     jwt_sign = (\<lambda>c. ''tok-'' @ claim_id c),
     Student_findById = example_students,
     User_findById = example_users,
     User_findOne = example_by_email,
     Student_findOne = example_by_number,
     doc_save = (\<lambda>u. Returns ()),
     bcrypt_compare = (\<lambda>entered hash. hash = ''hash-'' @ entered),
     isEmail = (\<lambda>e. CHR ''@'' \<in> set e),
     normalizeEmail = (\<lambda>e. e),
     trim = (\<lambda>s. s)\<rparr>"

definition bare_request :: request where
  "bare_request = \<lparr>authorization = None, cookie_token = None, user = None\<rparr>"

definition bearer :: "string \<Rightarrow> request" where
  "bearer t = \<lparr>authorization = Some (''Bearer '' @ t), cookie_token = None, user = None\<rparr>"

definition as_user :: "principal \<Rightarrow> request" where
  "as_user u = \<lparr>authorization = None, cookie_token = None, user = Some u\<rparr>"

section \<open>Visitor presence and visit log\<close>

text \<open>
  The embedding follows \<^verbatim>\<open>middleware/visitorTracking.js\<close>, \<^verbatim>\<open>models/Analytics.js\<close> and
  \<^verbatim>\<open>controllers/analyticsController.js\<close>. Times are milliseconds since the epoch. The
  collections are lists in insertion order; the fields \<^verbatim>\<open>_id\<close>, \<^verbatim>\<open>createdAt\<close> and
  \<^verbatim>\<open>updatedAt\<close> that Mongoose maintains are left out, since no code reads them. Field
  names carry a prefix (\<open>ou_\<close>, \<open>v_\<close>, \<open>p_\<close>, \<open>ss_\<close>) where the schemas share a name.
  The clock reading \<open>now\<close> and the rendering \<open>rand\<close> of \<^verbatim>\<open>Math.random()\<close> are inputs of a
  tracking call; the readings of \<^verbatim>\<open>new Date()\<close> inside one call are taken to be equal.
\<close>

subsection \<open>Strings\<close>

text \<open>\<^verbatim>\<open>/needle/.test(haystack)\<close> for a pattern without metacharacters.\<close>

fun contains :: "string \<Rightarrow> string \<Rightarrow> bool" where
  "contains [] needle = (needle = [])"
| "contains (x # xs) needle = (prefix needle (x # xs) \<or> contains xs needle)"

text \<open>Case folding of the \<^verbatim>\<open>i\<close> flag on ASCII letters; no other character folds onto an ASCII
  letter of a pattern.\<close>

definition lower_char :: "char \<Rightarrow> char" where
  "lower_char c =
     (case map_of (zip ''ABCDEFGHIJKLMNOPQRSTUVWXYZ'' ''abcdefghijklmnopqrstuvwxyz'') c of
        Some l \<Rightarrow> l
      | None \<Rightarrow> c)"

definition contains_ci :: "string \<Rightarrow> string \<Rightarrow> bool" where
  "contains_ci haystack needle = contains (map lower_char haystack) needle"

definition digit_char :: "nat \<Rightarrow> char" where
  "digit_char d = ''0123456789'' ! d"

function decimal_nat :: "nat \<Rightarrow> string" where
  "decimal_nat n = (if n < 10 then [digit_char n] else decimal_nat (n div 10) @ [digit_char (n mod 10)])"
  by pat_completeness auto
termination
  by (relation "measure id") auto

declare decimal_nat.simps [simp del]

text \<open>\<^verbatim>\<open>`${n}`\<close> for an integer.\<close>

definition decimal :: "int \<Rightarrow> string" where
  "decimal i = (if i < 0 then ''-'' @ decimal_nat (nat (- i)) else decimal_nat (nat i))"

text \<open>\<^verbatim>\<open>v || d\<close> for a header value and a string default.\<close>

definition or_default :: "string option \<Rightarrow> string \<Rightarrow> string" where
  "or_default v d = (case v of None \<Rightarrow> d | Some s \<Rightarrow> if s = [] then d else s)"

subsection \<open>Requests and the environment of the trackers\<close>

record track_request =
  t_path :: string
  t_sessionID :: "string option"
  h_user_agent :: "string option"
  h_referrer :: "string option"
  h_page_title :: "string option"
  h_x_forwarded_for :: "string option"
  h_x_real_ip :: "string option"
  t_connection_remoteAddress :: "string option"
  t_socket_remoteAddress :: "string option"
  t_connection_socket_remoteAddress :: "string option"
  t_ip :: "string option"
  t_user :: "principal option"
  t_teacher :: "string option"
  t_student :: "string option"

text \<open>What \<^verbatim>\<open>useragent.parse\<close> returns, with \<^verbatim>\<open>toVersion()\<close> already applied.\<close>

record agent =
  agent_family :: string
  agent_version :: string
  agent_os_family :: string
  agent_os_version :: string

text \<open>What \<^verbatim>\<open>geoip.lookup\<close> returns (an empty string for a missing field).\<close>

record geo =
  geo_country :: string
  geo_region :: string
  geo_city :: string
  geo_timezone :: string
  geo_ll :: "real list option"

text \<open>
  The libraries and the local-time calendar of the runtime: \<open>startOfDay t\<close> is
  \<^verbatim>\<open>setHours(0, 0, 0, 0)\<close> on a date at \<open>t\<close>, and \<open>Visitor_validate\<close> is the validation
  that Mongoose runs inside \<^verbatim>\<open>save()\<close> against \<^verbatim>\<open>visitorSchema\<close>, given the fields of the
  document that the schema constrains.
\<close>

record track_env =
  useragent_parse :: "string \<Rightarrow> agent"
  geoip_lookup :: "string \<Rightarrow> geo option outcome"
  startOfDay :: "int \<Rightarrow> int"
  Visitor_validate :: "string \<Rightarrow> string \<Rightarrow> string \<Rightarrow> string \<Rightarrow> bool"

subsection \<open>Stored documents\<close>

record name_version =
  nv_name :: string
  nv_version :: string

record location =
  country :: string
  region :: string
  city :: string
  timezone :: string
  coordinates :: "real list"

record onlineUser =
  ou_sessionId :: string
  ou_userId :: "string option"
  ou_teacherId :: "string option"
  ou_studentId :: "string option"
  ou_ip :: string
  ou_userAgent :: string
  ou_browser :: name_version
  ou_os :: name_version
  ou_device :: string
  ou_location :: location
  ou_isAuthenticated :: bool
  ou_userRole :: string
  ou_currentPage :: string
  ou_lastActivity :: int
  ou_loginTime :: int

record page_entry =
  p_url :: string
  p_title :: string
  p_visitTime :: int
  p_duration :: "int option"

record visitor =
  v_ip :: string
  v_sessionId :: string
  v_firstVisit :: int
  v_lastVisit :: int
  v_visitCount :: int
  v_totalDuration :: int
  v_pages :: "page_entry list"
  v_referrer :: string
  v_userAgent :: string
  v_browser :: name_version
  v_os :: name_version
  v_device :: string
  v_location :: location
  v_isBot :: bool
  v_userId :: "string option"
  v_teacherId :: "string option"
  v_studentId :: "string option"

record siteStats =
  ss_totalVisitors :: int
  ss_totalPageViews :: int
  ss_totalUsers :: int
  ss_totalTeachers :: int
  ss_totalStudents :: int
  ss_totalNews :: int
  ss_totalGalleries :: int
  ss_lastUpdated :: int

record db =
  onlineUsers :: "onlineUser list"
  visitors :: "visitor list"
  site_stats :: "siteStats option"

subsection \<open>Store operations\<close>

text \<open>
  \<^verbatim>\<open>findOneAndUpdate(filter, update, {upsert: true, new: true})\<close>: the first document that
  matches is updated in place; when none matches, the new document is inserted.
\<close>

fun upsert :: "('a \<Rightarrow> bool) \<Rightarrow> ('a \<Rightarrow> 'a) \<Rightarrow> 'a \<Rightarrow> 'a list \<Rightarrow> 'a list" where
  "upsert p f new [] = [new]"
| "upsert p f new (x # xs) = (if p x then f x # xs else x # upsert p f new xs)"

text \<open>\<^verbatim>\<open>findOne(filter)\<close>.\<close>

fun findOne :: "('a \<Rightarrow> bool) \<Rightarrow> 'a list \<Rightarrow> 'a option" where
  "findOne p [] = None"
| "findOne p (x # xs) = (if p x then Some x else findOne p xs)"

text \<open>Writing back the document that \<open>findOne p\<close> returned.\<close>

fun replaceOne :: "('a \<Rightarrow> bool) \<Rightarrow> 'a \<Rightarrow> 'a list \<Rightarrow> 'a list" where
  "replaceOne p y [] = []"
| "replaceOne p y (x # xs) = (if p x then y # xs else x # replaceOne p y xs)"

subsection \<open>Helpers of visitorTracking.js\<close>

definition BOT_PATTERNS :: "string list" where
  "BOT_PATTERNS =
     [''bot'', ''crawler'', ''spider'', ''scraper'',
      ''googlebot'', ''bingbot'', ''slurp'', ''duckduckbot'',
      ''baiduspider'', ''yandexbot'', ''facebookexternalhit'',
      ''twitterbot'', ''linkedinbot'', ''whatsapp'',
      ''telegrambot'', ''applebot'', ''curl'', ''wget'']"

definition isBot :: "string \<Rightarrow> bool" where
  "isBot userAgentString =
     (if userAgentString = [] then False
      else list_ex (\<lambda>pattern. contains_ci userAgentString pattern) BOT_PATTERNS)"

definition first_truthy :: "string option list \<Rightarrow> string \<Rightarrow> string" where
  "first_truthy vs d = (case filter truthy vs of [] \<Rightarrow> d | v # _ \<Rightarrow> or_default v d)"

definition getClientIP :: "track_request \<Rightarrow> string" where
  "getClientIP req =
     first_truthy
       [h_x_forwarded_for req, h_x_real_ip req, t_connection_remoteAddress req,
        t_socket_remoteAddress req, t_connection_socket_remoteAddress req, t_ip req]
       ''127.0.0.1''"

record ua_info =
  ua_browser :: name_version
  ua_os :: name_version
  ua_device :: string

definition analyzeUserAgent :: "track_env \<Rightarrow> string \<Rightarrow> ua_info" where
  "analyzeUserAgent env userAgentString =
     (let agent = useragent_parse env userAgentString;
          device =
            (if userAgentString \<noteq> [] then
               (if contains userAgentString ''Mobile'' \<or> contains userAgentString ''Android''
                   \<or> contains userAgentString ''iPhone'' \<or> contains userAgentString ''iPad''
                then (if contains userAgentString ''iPad'' then ''tablet'' else ''mobile'')
                else ''desktop'')
             else ''unknown'')
      in \<lparr>ua_browser = \<lparr>nv_name = or_default (Some (agent_family agent)) ''Unknown'',
                          nv_version = or_default (Some (agent_version agent)) ''Unknown''\<rparr>,
          ua_os = \<lparr>nv_name = or_default (Some (agent_os_family agent)) ''Unknown'',
                     nv_version = or_default (Some (agent_os_version agent)) ''Unknown''\<rparr>,
          ua_device = device\<rparr>)"

definition unknown_location :: location where
  "unknown_location = \<lparr>country = ''Unknown'', region = ''Unknown'', city = ''Unknown'',
     timezone = ''UTC'', coordinates = [0, 0]\<rparr>"

definition getLocationInfo :: "track_env \<Rightarrow> string \<Rightarrow> location" where
  "getLocationInfo env ip =
     (if ip = ''127.0.0.1'' \<or> ip = ''::1'' \<or> prefix ''192.168.'' ip \<or> prefix ''10.'' ip then
        \<lparr>country = ''Turkey'', region = ''Local'', city = ''Local'',
         timezone = ''Europe/Istanbul'', coordinates = [29, 41]\<rparr>
      else
        (case geoip_lookup env ip of
           Returns (Some g) \<Rightarrow>
             \<lparr>country = or_default (Some (geo_country g)) ''Unknown'',
              region = or_default (Some (geo_region g)) ''Unknown'',
              city = or_default (Some (geo_city g)) ''Unknown'',
              timezone = or_default (Some (geo_timezone g)) ''UTC'',
              coordinates = (case geo_ll g of None \<Rightarrow> [0, 0] | Some ll \<Rightarrow> ll)\<rparr>
         | Returns None \<Rightarrow> unknown_location
         | Throws name \<Rightarrow> unknown_location))"

definition getUserRole :: "track_request \<Rightarrow> string" where
  "getUserRole req =
     (case t_user req of
        Some u \<Rightarrow>
          (if role u = Some ''admin'' then ''admin''
           else if role u = Some ''teacher'' then ''teacher''
           else ''teacher'')
      | None \<Rightarrow>
          if t_student req \<noteq> None then ''student''
          else if t_teacher req \<noteq> None then ''teacher''
          else ''guest'')"

text \<open>\<^verbatim>\<open>req.sessionID || `guest_${Date.now()}_${Math.random()}`\<close>.\<close>

definition guest_key :: "int \<Rightarrow> string \<Rightarrow> string" where
  "guest_key now rand = ''guest_'' @ decimal now @ ''_'' @ rand"

definition session_key :: "track_request \<Rightarrow> int \<Rightarrow> string \<Rightarrow> string" where
  "session_key req now rand = or_default (t_sessionID req) (guest_key now rand)"

text \<open>The three identifiers: \<^verbatim>\<open>userId\<close> when \<^verbatim>\<open>req.user\<close> is set, else \<^verbatim>\<open>teacherId\<close> when
  \<^verbatim>\<open>req.teacher\<close> is set, else \<^verbatim>\<open>studentId\<close> when \<^verbatim>\<open>req.student\<close> is set.\<close>

definition req_userId :: "track_request \<Rightarrow> string option" where
  "req_userId req = map_option uid (t_user req)"

definition req_teacherId :: "track_request \<Rightarrow> string option" where
  "req_teacherId req = (if t_user req \<noteq> None then None else t_teacher req)"

definition req_studentId :: "track_request \<Rightarrow> string option" where
  "req_studentId req =
     (if t_user req \<noteq> None \<or> t_teacher req \<noteq> None then None else t_student req)"

subsection \<open>trackOnlineUser\<close>

definition online_skip :: "string \<Rightarrow> bool" where
  "online_skip path =
     (prefix ''/uploads'' path \<or> prefix ''/favicon'' path \<or> path = ''/api/health''
      \<or> path = ''/robots.txt'' \<or> path = ''/sitemap.xml'')"

text \<open>The \<^verbatim>\<open>$set\<close> part of the update, applied to a stored document.\<close>

definition online_set :: "track_env \<Rightarrow> track_request \<Rightarrow> int \<Rightarrow> string \<Rightarrow> onlineUser \<Rightarrow> onlineUser" where
  "online_set env req now sessionId u =
     (let ip = getClientIP req;
          userAgentString = or_default (h_user_agent req) [];
          userAgentInfo = analyzeUserAgent env userAgentString
      in u\<lparr>ou_sessionId := sessionId,
            ou_userId := req_userId req,
            ou_teacherId := req_teacherId req,
            ou_studentId := req_studentId req,
            ou_ip := ip,
            ou_userAgent := userAgentString,
            ou_browser := ua_browser userAgentInfo,
            ou_os := ua_os userAgentInfo,
            ou_device := ua_device userAgentInfo,
            ou_location := getLocationInfo env ip,
            ou_isAuthenticated := (t_user req \<noteq> None \<or> t_student req \<noteq> None \<or> t_teacher req \<noteq> None),
            ou_userRole := getUserRole req,
            ou_currentPage := t_path req,
            ou_lastActivity := now\<rparr>)"

text \<open>The document an upsert inserts: the \<^verbatim>\<open>$set\<close> fields and \<^verbatim>\<open>$setOnInsert: {loginTime}\<close>.\<close>

definition online_insert :: "track_env \<Rightarrow> track_request \<Rightarrow> int \<Rightarrow> string \<Rightarrow> onlineUser" where
  "online_insert env req now sessionId =
     online_set env req now sessionId
       \<lparr>ou_sessionId = sessionId, ou_userId = None, ou_teacherId = None, ou_studentId = None,
        ou_ip = [], ou_userAgent = [],
        ou_browser = \<lparr>nv_name = [], nv_version = []\<rparr>, ou_os = \<lparr>nv_name = [], nv_version = []\<rparr>,
        ou_device = ''unknown'', ou_location = unknown_location, ou_isAuthenticated = False,
        ou_userRole = ''guest'', ou_currentPage = ''/'', ou_lastActivity = now,
        ou_loginTime = now\<rparr>"

definition trackOnlineUser :: "track_env \<Rightarrow> track_request \<Rightarrow> int \<Rightarrow> string \<Rightarrow> db \<Rightarrow> db" where
  "trackOnlineUser env req now rand d =
     (if online_skip (t_path req) then d
      else
        (let userAgentString = or_default (h_user_agent req) [];
             sessionId = session_key req now rand
         in if isBot userAgentString then d
            else d\<lparr>onlineUsers :=
                     upsert (\<lambda>u. ou_sessionId u = sessionId)
                       (online_set env req now sessionId)
                       (online_insert env req now sessionId)
                       (onlineUsers d)\<rparr>))"

text \<open>\<^verbatim>\<open>getOnlineCount\<close> of the OnlineUser model, read at \<open>now\<close>.\<close>

definition getOnlineCount :: "int \<Rightarrow> db \<Rightarrow> nat" where
  "getOnlineCount now d =
     length (filter (\<lambda>u. now - 30 * 60 * 1000 \<le> ou_lastActivity u) (onlineUsers d))"

subsection \<open>trackVisitor\<close>

definition visitor_skip :: "string \<Rightarrow> bool" where
  "visitor_skip path =
     (prefix ''/api'' path \<or> prefix ''/uploads'' path \<or> prefix ''/favicon'' path
      \<or> path = ''/robots.txt'' \<or> path = ''/sitemap.xml'')"

definition visitor_set :: "track_env \<Rightarrow> track_request \<Rightarrow> int \<Rightarrow> visitor \<Rightarrow> visitor" where
  "visitor_set env req now v =
     (let ip = getClientIP req;
          userAgentString = or_default (h_user_agent req) [];
          userAgentInfo = analyzeUserAgent env userAgentString
      in v\<lparr>v_lastVisit := now,
            v_userAgent := userAgentString,
            v_browser := ua_browser userAgentInfo,
            v_os := ua_os userAgentInfo,
            v_device := ua_device userAgentInfo,
            v_location := getLocationInfo env ip,
            v_userId := req_userId req,
            v_teacherId := req_teacherId req,
            v_studentId := req_studentId req,
            v_isBot := False\<rparr>)"

text \<open>The document an upsert inserts: the filter fields, the \<^verbatim>\<open>$set\<close> fields,
  \<^verbatim>\<open>$setOnInsert: {firstVisit, visitCount: 0, referrer, pages: []}\<close> and the schema default
  of \<^verbatim>\<open>totalDuration\<close>.\<close>

definition visitor_insert :: "track_env \<Rightarrow> track_request \<Rightarrow> int \<Rightarrow> string \<Rightarrow> visitor" where
  "visitor_insert env req now sessionId =
     visitor_set env req now
       \<lparr>v_ip = getClientIP req, v_sessionId = sessionId, v_firstVisit = now, v_lastVisit = now,
        v_visitCount = 0, v_totalDuration = 0, v_pages = [],
        v_referrer = or_default (h_referrer req) ''direct'',
        v_userAgent = [],
        v_browser = \<lparr>nv_name = [], nv_version = []\<rparr>, v_os = \<lparr>nv_name = [], nv_version = []\<rparr>,
        v_device = ''unknown'', v_location = unknown_location, v_isBot = False,
        v_userId = None, v_teacherId = None, v_studentId = None\<rparr>"

text \<open>
  \<^verbatim>\<open>visitor.save()\<close> validates the document against \<^verbatim>\<open>visitorSchema\<close> before it writes,
  and throws when the document is rejected. The schema constrains \<^verbatim>\<open>ip\<close>, \<^verbatim>\<open>sessionId\<close>
  and \<^verbatim>\<open>userAgent\<close> (\<^verbatim>\<open>required: true\<close>) and \<^verbatim>\<open>device\<close> (an enum).
  (\<^verbatim>\<open>findOneAndUpdate\<close> is called without \<^verbatim>\<open>runValidators\<close>.)
\<close>

definition save_accepts :: "track_env \<Rightarrow> visitor \<Rightarrow> bool" where
  "save_accepts env v = Visitor_validate env (v_ip v) (v_sessionId v) (v_userAgent v) (v_device v)"

text \<open>\<^verbatim>\<open>updateSiteStats\<close>: \<^verbatim>\<open>$inc\<close> on an inserted document starts from zero.\<close>

definition updateSiteStats :: "track_env \<Rightarrow> int \<Rightarrow> db \<Rightarrow> db" where
  "updateSiteStats env now d =
     (let today = startOfDay env now;
          todayVisitors = int (length (filter (\<lambda>v. today \<le> v_lastVisit v) (visitors d)))
      in d\<lparr>site_stats :=
             Some (case site_stats d of
                     Some s \<Rightarrow> s\<lparr>ss_lastUpdated := now, ss_totalPageViews := ss_totalPageViews s + 1\<rparr>
                   | None \<Rightarrow>
                       \<lparr>ss_totalVisitors = todayVisitors, ss_totalPageViews = 1, ss_totalUsers = 0,
                        ss_totalTeachers = 0, ss_totalStudents = 0, ss_totalNews = 0,
                        ss_totalGalleries = 0, ss_lastUpdated = now\<rparr>)\<rparr>)"

text \<open>The page entry \<^verbatim>\<open>trackVisitor\<close> pushes.\<close>

definition page_of :: "track_request \<Rightarrow> int \<Rightarrow> page_entry" where
  "page_of req now =
     \<lparr>p_url = t_path req, p_title = or_default (h_page_title req) (t_path req),
      p_visitTime = now, p_duration = None\<rparr>"

definition visitor_key :: "string \<Rightarrow> string \<Rightarrow> visitor \<Rightarrow> bool" where
  "visitor_key ip sessionId v = (v_ip v = ip \<and> v_sessionId v = sessionId)"

text \<open>
  The document \<^verbatim>\<open>trackVisitor\<close> hands to \<^verbatim>\<open>save()\<close>: what \<^verbatim>\<open>findOneAndUpdate\<close> returned
  (the updated match, or the inserted document), with the page entry pushed, the count
  incremented and \<^verbatim>\<open>lastVisit\<close> set.
\<close>

definition visit_doc :: "track_env \<Rightarrow> track_request \<Rightarrow> int \<Rightarrow> string \<Rightarrow> db \<Rightarrow> visitor" where
  "visit_doc env req now rand d =
     (let sessionId = session_key req now rand;
          visitor = (case findOne (visitor_key (getClientIP req) sessionId) (visitors d) of
                       Some v \<Rightarrow> visitor_set env req now v
                     | None \<Rightarrow> visitor_insert env req now sessionId)
      in visitor\<lparr>v_pages := v_pages visitor @ [page_of req now],
                  v_visitCount := v_visitCount visitor + 1,
                  v_lastVisit := now\<rparr>)"

text \<open>
  \<^verbatim>\<open>trackVisitor\<close>. A rejected save reaches the catch block: the upsert stays, and neither
  the document nor the site statistics are written.
\<close>

definition trackVisitor :: "track_env \<Rightarrow> track_request \<Rightarrow> int \<Rightarrow> string \<Rightarrow> db \<Rightarrow> db" where
  "trackVisitor env req now rand d =
     (if visitor_skip (t_path req) then d
      else
        (let userAgentString = or_default (h_user_agent req) [];
             sessionId = session_key req now rand;
             key = visitor_key (getClientIP req) sessionId
         in if isBot userAgentString then d
            else
              (let vs = upsert key (visitor_set env req now) (visitor_insert env req now sessionId)
                          (visitors d);
                   visitor = visit_doc env req now rand d
               in if \<not> save_accepts env visitor then d\<lparr>visitors := vs\<rparr>
                  else updateSiteStats env now (d\<lparr>visitors := replaceOne key visitor vs\<rparr>))))"

text \<open>The middleware of \<^verbatim>\<open>middleware/analytics.js\<close>: both trackers in turn, each with its own
  clock reading and random draw.\<close>

definition analytics :: "track_env \<Rightarrow> track_request \<Rightarrow> int \<Rightarrow> string \<Rightarrow> int \<Rightarrow> string \<Rightarrow> db \<Rightarrow> db" where
  "analytics env req now1 rand1 now2 rand2 d =
     trackVisitor env req now2 rand2 (trackOnlineUser env req now1 rand1 d)"

subsection \<open>Aggregate queries\<close>
















subsection \<open>Predicates and examples for the statements\<close>

text \<open>No stored presence or visit record comes from a crawler.\<close>

definition bot_free :: "db \<Rightarrow> bool" where
  "bot_free d =
     ((\<forall>u\<in>set (onlineUsers d). \<not> isBot (ou_userAgent u))
      \<and> (\<forall>v\<in>set (visitors d). \<not> isBot (v_userAgent v) \<and> \<not> v_isBot v))"


text \<open>The validation as the schema reads: the three required strings are not empty and the
  device is one of the enum's values.\<close>

definition visitor_valid :: "string \<Rightarrow> string \<Rightarrow> string \<Rightarrow> string \<Rightarrow> bool" where
  "visitor_valid ip sessionId userAgent device =
     (ip \<noteq> [] \<and> sessionId \<noteq> [] \<and> userAgent \<noteq> []
      \<and> device \<in> set [''desktop'', ''mobile'', ''tablet'', ''unknown''])"

definition example_track_env :: track_env where
  "example_track_env =
     \<lparr>useragent_parse = (\<lambda>ua. \<lparr>agent_family = ''Other'', agent_version = ''0.0.0'',
                                  agent_os_family = ''Other'', agent_os_version = ''0.0.0''\<rparr>),
      geoip_lookup = (\<lambda>ip. Returns None),
      startOfDay = (\<lambda>t. t - t mod 86400000),
      Visitor_validate = visitor_valid\<rparr>"

definition page_request :: "string \<Rightarrow> string option \<Rightarrow> string option \<Rightarrow> track_request" where
  "page_request path sid ua =
     \<lparr>t_path = path, t_sessionID = sid, h_user_agent = ua, h_referrer = None,
      h_page_title = None, h_x_forwarded_for = None, h_x_real_ip = None,
      t_connection_remoteAddress = Some ''10.0.0.7'', t_socket_remoteAddress = Some ''10.0.0.7'',
      t_connection_socket_remoteAddress = None, t_ip = Some ''10.0.0.7'',
      t_user = None, t_teacher = None, t_student = None\<rparr>"

definition empty_db :: db where
  "empty_db = \<lparr>onlineUsers = [], visitors = [], site_stats = None\<rparr>"

definition stale_db :: db where
  "stale_db =
     \<lparr>onlineUsers =
        [online_insert example_track_env (page_request ''/'' (Some ''s1'') (Some ''Firefox'')) 0 ''s1''],
      visitors = [], site_stats = None\<rparr>"


section \<open>Properties of the access-control core\<close>

subsection \<open>Helper lemmas\<close>

lemma split_on_not_Nil: "split_on c xs \<noteq> []"
  by (induction xs) (auto split: list.splits)

lemma hd_split_on: "hd (split_on c xs) = takeWhile (\<lambda>x. x \<noteq> c) xs"
  by (induction xs) (auto split: list.splits simp: split_on_not_Nil)

lemma split_on_prepend:
  "c \<notin> set w \<Longrightarrow> split_on c (w @ c # xs) = w # split_on c xs"
  by (induction w) (auto split: list.splits)

lemma bearer_second_part:
  "at_index (split_on CHR '' '' (''Bearer '' @ t)) 1 = Some (takeWhile (\<lambda>x. x \<noteq> CHR '' '') t)"
proof -
  have "split_on CHR '' '' (''Bearer'' @ CHR '' '' # t) = ''Bearer'' # split_on CHR '' '' t"
    by (rule split_on_prepend) simp
  moreover obtain w ws where "split_on CHR '' '' t = w # ws"
    using split_on_not_Nil [of "CHR '' ''" t] by (cases "split_on CHR '' '' t") auto
  moreover from this have "w = takeWhile (\<lambda>x. x \<noteq> CHR '' '') t"
    using hd_split_on [of "CHR '' ''" t] by simp
  ultimately show ?thesis by (simp add: at_index_def)
qed

lemma verifyToken_no_token:
  "\<not> truthy (extractToken req) \<Longrightarrow>
     verifyToken env req = reject 401 msg_no_token (Some ''NO_TOKEN'')"
  by (auto simp: verifyToken_def truthy_def split: option.splits)

lemma verifyToken_jwt_throws:
  "extractToken req = Some t \<Longrightarrow> t \<noteq> [] \<Longrightarrow> jwt_verify env t = Throws n \<Longrightarrow>
     verifyToken env req = verifyToken_catch n"
  by (simp add: verifyToken_def)

lemma verifyToken_catch_401:
  "verifyToken_catch n = Respond r \<Longrightarrow>
     status r = 401 \<and> \<not> success r \<and>
     code r \<in> {Some ''TOKEN_EXPIRED'', Some ''TOKEN_MALFORMED'', Some ''TOKEN_INVALID''}"
  by (auto simp: verifyToken_catch_def reject_def split: if_splits)

lemma verifyToken_admit_401:
  "verifyToken_admit req ut u = Respond r \<Longrightarrow>
     status r = 401 \<and> \<not> success r \<and> code r = Some ''ACCOUNT_DEACTIVATED''"
  by (auto simp: verifyToken_admit_def reject_def split: if_splits)

lemma verifyToken_401:
  assumes "verifyToken env req = Respond r"
  shows "status r = 401 \<and> \<not> success r \<and>
     code r \<in> {Some ''NO_TOKEN'', Some ''TOKEN_EXPIRED'', Some ''TOKEN_MALFORMED'',
       Some ''TOKEN_INVALID'', Some ''USER_NOT_FOUND'', Some ''ACCOUNT_DEACTIVATED'',
       Some ''INVALID_USER_TYPE''}"
  using assms
  unfolding verifyToken_def
  by (auto split: option.splits if_splits outcome.splits
      dest!: verifyToken_catch_401 verifyToken_admit_401 simp: reject_def)

lemma protect_admit_401:
  "protect_admit req u = Respond r \<Longrightarrow> status r = 401 \<and> \<not> success r \<and> code r = None"
  by (auto simp: protect_admit_def reject_def split: if_splits)

lemma protect_401:
  assumes "protect env req = Respond r"
  shows "status r = 401 \<and> \<not> success r \<and> code r = None"
  using assms
  unfolding protect_def
  by (auto split: option.splits if_splits outcome.splits
      dest!: protect_admit_401 simp: reject_def)

lemma verifyToken_decoded:
  assumes "extractToken req = Some t" "t \<noteq> []" "jwt_verify env t = Returns d"
  shows "verifyToken env req =
     (if claim_userType d = Some ''student'' then
        (case Student_findById env (claim_id d) of
           Throws name \<Rightarrow> verifyToken_catch name
         | Returns None \<Rightarrow> reject 401 msg_student_not_found (Some ''USER_NOT_FOUND'')
         | Returns (Some u) \<Rightarrow> verifyToken_admit req (claim_userType d) u)
      else if claim_userType d = Some ''teacher'' \<or> claim_userType d = Some ''admin'' then
        (case User_findById env (claim_id d) of
           Throws name \<Rightarrow> verifyToken_catch name
         | Returns None \<Rightarrow> reject 401 msg_user_not_found (Some ''USER_NOT_FOUND'')
         | Returns (Some u) \<Rightarrow> verifyToken_admit req (claim_userType d) u)
      else reject 401 msg_invalid_user_type (Some ''INVALID_USER_TYPE''))"
  using assms by (simp add: verifyToken_def)

text \<open>The document the token names: the Student collection for the student kind, the User
  collection for the teacher and admin kinds.\<close>

lemma verifyToken_deactivated:
  assumes "extractToken req = Some t" "t \<noteq> []" "jwt_verify env t = Returns d"
    and "(claim_userType d = Some ''student'' \<and> Student_findById env (claim_id d) = Returns (Some u))
       \<or> (claim_userType d \<in> {Some ''teacher'', Some ''admin''}
           \<and> User_findById env (claim_id d) = Returns (Some u))"
    and "\<not> isActive u"
  shows "verifyToken env req = reject 401 msg_account_deactivated (Some ''ACCOUNT_DEACTIVATED'')"
  using assms by (auto simp: verifyToken_decoded verifyToken_admit_def)

lemma join_sublist: "a \<in> set xs \<Longrightarrow> sublist a (join sep xs)"
proof (induction sep xs rule: join.induct)
  case (1 sep)
  then show ?case by simp
next
  case (2 sep x)
  then show ?case by simp
next
  case (3 sep x y ys)
  show ?case
  proof (cases "a = x")
    case True
    then show ?thesis by (simp add: sublist_append_rightI)
  next
    case False
    with 3 have "sublist a (join sep (y # ys))" by simp
    then have "sublist a ((x @ sep) @ join sep (y # ys))"
      unfolding sublist_append by blast
    then show ?thesis by simp
  qed
qed

lemma msg_insufficient_names:
  "suffix r (msg_insufficient allowed (Some r))
   \<and> (\<forall>a\<in>set allowed. sublist a (msg_insufficient allowed (Some r)))"
proof
  show "suffix r (msg_insufficient allowed (Some r))"
    unfolding msg_insufficient_def render_def
    by (simp add: suffix_def)
next
  show "\<forall>a\<in>set allowed. sublist a (msg_insufficient allowed (Some r))"
  proof
    fix a assume "a \<in> set allowed"
    then have "sublist a (join '' veya '' allowed)" by (rule join_sublist)
    then show "sublist a (msg_insufficient allowed (Some r))"
      unfolding msg_insufficient_def sublist_append by blast
  qed
qed

lemma verifyToken_Next:
  assumes "verifyToken env req = Next req'"
  shows "\<exists>u ut. user req' = Some u \<and> isActive u \<and> userType u = Some ut
           \<and> ut \<in> {''student'', ''teacher'', ''admin''}"
  using assms
  unfolding verifyToken_def verifyToken_admit_def verifyToken_catch_def reject_def
  by (auto split: option.splits if_splits outcome.splits)

lemma protect_Next:
  assumes "protect env req = Next req'"
  shows "\<exists>u ut. user req' = Some u \<and> isActive u \<and> userType u = Some ut
           \<and> ut \<in> {''student'', ''teacher'', ''admin''}"
  using assms
  unfolding protect_def protect_admit_def reject_def
  by (auto split: option.splits if_splits outcome.splits)

subsection \<open>Reason codes of the strict middleware\<close>

text \<open>
  C1, as the code has it. Every rejection of \<^verbatim>\<open>verifyToken\<close> is HTTP 401 with
  \<^verbatim>\<open>success: false\<close> and a \<^verbatim>\<open>code\<close> among NO_TOKEN, TOKEN_EXPIRED, TOKEN_MALFORMED,
  TOKEN_INVALID, USER_NOT_FOUND, ACCOUNT_DEACTIVATED and INVALID_USER_TYPE, and each failure
  case has its own code: no credential in header or cookie gives NO_TOKEN, a
  TokenExpiredError gives TOKEN_EXPIRED, a JsonWebTokenError gives TOKEN_MALFORMED, a kind
  other than student, teacher or admin gives INVALID_USER_TYPE, a missing document gives
  USER_NOT_FOUND and an inactive one ACCOUNT_DEACTIVATED. Every rejection of \<^verbatim>\<open>protect\<close>
  is HTTP 401 too, but its body has no \<^verbatim>\<open>code\<close> field.
\<close>

theorem verifyToken_reason_codes:
  "(verifyToken env req = Respond r \<longrightarrow>
      status r = 401 \<and> \<not> success r \<and>
      code r \<in> {Some ''NO_TOKEN'', Some ''TOKEN_EXPIRED'', Some ''TOKEN_MALFORMED'',
        Some ''TOKEN_INVALID'', Some ''USER_NOT_FOUND'', Some ''ACCOUNT_DEACTIVATED'',
        Some ''INVALID_USER_TYPE''})
   \<and> (\<not> truthy (extractToken req) \<longrightarrow>
        verifyToken env req = reject 401 msg_no_token (Some ''NO_TOKEN''))
   \<and> (extractToken req = Some t \<and> t \<noteq> [] \<longrightarrow>
        (jwt_verify env t = Throws ''TokenExpiredError'' \<longrightarrow>
           verifyToken env req = reject 401 msg_token_expired (Some ''TOKEN_EXPIRED''))
      \<and> (jwt_verify env t = Throws ''JsonWebTokenError'' \<longrightarrow>
           verifyToken env req = reject 401 msg_invalid_token (Some ''TOKEN_MALFORMED''))
      \<and> (jwt_verify env t = Returns d \<longrightarrow>
           (claim_userType d \<notin> {Some ''student'', Some ''teacher'', Some ''admin''} \<longrightarrow>
              verifyToken env req = reject 401 msg_invalid_user_type (Some ''INVALID_USER_TYPE''))
         \<and> (claim_userType d = Some ''student''
              \<and> Student_findById env (claim_id d) = Returns None \<longrightarrow>
              verifyToken env req = reject 401 msg_student_not_found (Some ''USER_NOT_FOUND''))
         \<and> (claim_userType d \<in> {Some ''teacher'', Some ''admin''}
              \<and> User_findById env (claim_id d) = Returns None \<longrightarrow>
              verifyToken env req = reject 401 msg_user_not_found (Some ''USER_NOT_FOUND''))
         \<and> (((claim_userType d = Some ''student''
                \<and> Student_findById env (claim_id d) = Returns (Some u))
              \<or> (claim_userType d \<in> {Some ''teacher'', Some ''admin''}
                \<and> User_findById env (claim_id d) = Returns (Some u)))
              \<and> \<not> isActive u \<longrightarrow>
              verifyToken env req =
                reject 401 msg_account_deactivated (Some ''ACCOUNT_DEACTIVATED''))))
   \<and> (protect env req = Respond r' \<longrightarrow> status r' = 401 \<and> \<not> success r' \<and> code r' = None)"
proof (intro conjI impI)
  assume "verifyToken env req = Respond r"
  then show "status r = 401" "\<not> success r"
    "code r \<in> {Some ''NO_TOKEN'', Some ''TOKEN_EXPIRED'', Some ''TOKEN_MALFORMED'',
        Some ''TOKEN_INVALID'', Some ''USER_NOT_FOUND'', Some ''ACCOUNT_DEACTIVATED'',
        Some ''INVALID_USER_TYPE''}"
    using verifyToken_401 by blast+
next
  assume "\<not> truthy (extractToken req)"
  then show "verifyToken env req = reject 401 msg_no_token (Some ''NO_TOKEN'')"
    by (rule verifyToken_no_token)
next
  assume "extractToken req = Some t \<and> t \<noteq> []" "jwt_verify env t = Throws ''TokenExpiredError''"
  then show "verifyToken env req = reject 401 msg_token_expired (Some ''TOKEN_EXPIRED'')"
    by (simp add: verifyToken_jwt_throws verifyToken_catch_def)
next
  assume "extractToken req = Some t \<and> t \<noteq> []" "jwt_verify env t = Throws ''JsonWebTokenError''"
  then show "verifyToken env req = reject 401 msg_invalid_token (Some ''TOKEN_MALFORMED'')"
    by (simp add: verifyToken_jwt_throws verifyToken_catch_def)
next
  assume "extractToken req = Some t \<and> t \<noteq> []" "jwt_verify env t = Returns d"
    "claim_userType d \<notin> {Some ''student'', Some ''teacher'', Some ''admin''}"
  then show "verifyToken env req = reject 401 msg_invalid_user_type (Some ''INVALID_USER_TYPE'')"
    by (simp add: verifyToken_decoded)
next
  assume "extractToken req = Some t \<and> t \<noteq> []" "jwt_verify env t = Returns d"
    "claim_userType d = Some ''student'' \<and> Student_findById env (claim_id d) = Returns None"
  then show "verifyToken env req = reject 401 msg_student_not_found (Some ''USER_NOT_FOUND'')"
    by (simp add: verifyToken_decoded)
next
  assume "extractToken req = Some t \<and> t \<noteq> []" "jwt_verify env t = Returns d"
    "claim_userType d \<in> {Some ''teacher'', Some ''admin''}
       \<and> User_findById env (claim_id d) = Returns None"
  then show "verifyToken env req = reject 401 msg_user_not_found (Some ''USER_NOT_FOUND'')"
    by (auto simp: verifyToken_decoded)
next
  assume "extractToken req = Some t \<and> t \<noteq> []" "jwt_verify env t = Returns d"
    "((claim_userType d = Some ''student''
        \<and> Student_findById env (claim_id d) = Returns (Some u))
      \<or> (claim_userType d \<in> {Some ''teacher'', Some ''admin''}
        \<and> User_findById env (claim_id d) = Returns (Some u)))
      \<and> \<not> isActive u"
  then show "verifyToken env req =
      reject 401 msg_account_deactivated (Some ''ACCOUNT_DEACTIVATED'')"
    using verifyToken_deactivated [of req t env d u] by blast
next
  assume "protect env req = Respond r'"
  then show "status r' = 401" "\<not> success r'" "code r' = None"
    using protect_401 by blast+
qed

lemma extractToken_bearer [simp]:
  "extractToken (bearer t) = Some (takeWhile (\<lambda>x. x \<noteq> CHR '' '') t)"
  unfolding extractToken_def bearer_def
  by (simp add: bearer_second_part [simplified])

lemma example_env_simps [simp]:
  "jwt_verify example_env = example_verify"
  "Student_findById example_env = example_students"
  "User_findById example_env = example_users"
  "User_findOne example_env = example_by_email"
  "Student_findOne example_env = example_by_number"
  "doc_save example_env u = Returns ()"
  "bcrypt_compare example_env entered hash = (hash = ''hash-'' @ entered)"
  "isEmail example_env e = (CHR ''@'' \<in> set e)"
  "normalizeEmail example_env e = e"
  "trim example_env s = s"
  "jwt_sign example_env c = ''tok-'' @ claim_id c"
  by (simp_all add: example_env_def)

theorem verifyToken_reason_codes_witness:
  "verifyToken example_env bare_request = reject 401 msg_no_token (Some ''NO_TOKEN'')
   \<and> verifyToken example_env (bearer ''tok-old'')
       = reject 401 msg_token_expired (Some ''TOKEN_EXPIRED'')
   \<and> verifyToken example_env (bearer ''junk'')
       = reject 401 msg_invalid_token (Some ''TOKEN_MALFORMED'')
   \<and> verifyToken example_env (bearer ''tok-p1'')
       = reject 401 msg_invalid_user_type (Some ''INVALID_USER_TYPE'')
   \<and> verifyToken example_env (bearer ''tok-t9'')
       = reject 401 msg_user_not_found (Some ''USER_NOT_FOUND'')
   \<and> verifyToken example_env (bearer ''tok-s2'')
       = reject 401 msg_account_deactivated (Some ''ACCOUNT_DEACTIVATED'')
   \<and> (\<exists>r. protect example_env (bearer ''tok-s2'') = Respond r \<and> status r = 401 \<and> code r = None)"
proof -
  have none: "\<not> truthy (extractToken bare_request)"
    by (simp add: bare_request_def extractToken_def truthy_def)
  have old: "extractToken (bearer ''tok-old'') = Some ''tok-old'' \<and> ''tok-old'' \<noteq> []"
    "jwt_verify example_env ''tok-old'' = Throws ''TokenExpiredError''"
    by (simp_all add: example_verify_def)
  have junk: "extractToken (bearer ''junk'') = Some ''junk'' \<and> ''junk'' \<noteq> []"
    "jwt_verify example_env ''junk'' = Throws ''JsonWebTokenError''"
    by (simp_all add: example_verify_def)
  have p1: "extractToken (bearer ''tok-p1'') = Some ''tok-p1'' \<and> ''tok-p1'' \<noteq> []"
    "jwt_verify example_env ''tok-p1''
       = Returns \<lparr>claim_id = ''p1'', claim_userType = Some ''parent''\<rparr>"
    "claim_userType \<lparr>claim_id = ''p1'', claim_userType = Some ''parent''\<rparr>
       \<notin> {Some ''student'', Some ''teacher'', Some ''admin''}"
    by (simp_all add: example_verify_def)
  have t9: "extractToken (bearer ''tok-t9'') = Some ''tok-t9'' \<and> ''tok-t9'' \<noteq> []"
    "jwt_verify example_env ''tok-t9''
       = Returns \<lparr>claim_id = ''t9'', claim_userType = Some ''admin''\<rparr>"
    "claim_userType \<lparr>claim_id = ''t9'', claim_userType = Some ''admin''\<rparr>
         \<in> {Some ''teacher'', Some ''admin''}
       \<and> User_findById example_env
           (claim_id \<lparr>claim_id = ''t9'', claim_userType = Some ''admin''\<rparr>) = Returns None"
    by (simp_all add: example_verify_def example_users_def)
  have s2: "extractToken (bearer ''tok-s2'') = Some ''tok-s2'' \<and> ''tok-s2'' \<noteq> []"
    "jwt_verify example_env ''tok-s2''
       = Returns \<lparr>claim_id = ''s2'', claim_userType = Some ''student''\<rparr>"
    "((claim_userType \<lparr>claim_id = ''s2'', claim_userType = Some ''student''\<rparr> = Some ''student''
        \<and> Student_findById example_env
             (claim_id \<lparr>claim_id = ''s2'', claim_userType = Some ''student''\<rparr>)
           = Returns (Some student2))
      \<or> (claim_userType \<lparr>claim_id = ''s2'', claim_userType = Some ''student''\<rparr>
            \<in> {Some ''teacher'', Some ''admin''}
        \<and> User_findById example_env
             (claim_id \<lparr>claim_id = ''s2'', claim_userType = Some ''student''\<rparr>)
           = Returns (Some student2)))
      \<and> \<not> isActive student2"
    by (simp_all add: example_verify_def example_students_def student2_def)
  have c1: "verifyToken example_env bare_request = reject 401 msg_no_token (Some ''NO_TOKEN'')"
    using verifyToken_reason_codes [of example_env bare_request] none by simp
  have c2: "verifyToken example_env (bearer ''tok-old'')
       = reject 401 msg_token_expired (Some ''TOKEN_EXPIRED'')"
    using verifyToken_reason_codes [of example_env "bearer ''tok-old''" _ "''tok-old''"] old
    by simp
  have c3: "verifyToken example_env (bearer ''junk'')
       = reject 401 msg_invalid_token (Some ''TOKEN_MALFORMED'')"
    using verifyToken_reason_codes [of example_env "bearer ''junk''" _ "''junk''"] junk
    by simp
  have c4: "verifyToken example_env (bearer ''tok-p1'')
       = reject 401 msg_invalid_user_type (Some ''INVALID_USER_TYPE'')"
    using verifyToken_reason_codes [of example_env "bearer ''tok-p1''" _ "''tok-p1''"
        "\<lparr>claim_id = ''p1'', claim_userType = Some ''parent''\<rparr>"] p1
    by simp
  have c5: "verifyToken example_env (bearer ''tok-t9'')
       = reject 401 msg_user_not_found (Some ''USER_NOT_FOUND'')"
    using verifyToken_reason_codes [of example_env "bearer ''tok-t9''" _ "''tok-t9''"
        "\<lparr>claim_id = ''t9'', claim_userType = Some ''admin''\<rparr>"] t9
    by simp
  have c6: "verifyToken example_env (bearer ''tok-s2'')
       = reject 401 msg_account_deactivated (Some ''ACCOUNT_DEACTIVATED'')"
    using verifyToken_reason_codes [of example_env "bearer ''tok-s2''" _ "''tok-s2''"
        "\<lparr>claim_id = ''s2'', claim_userType = Some ''student''\<rparr>" student2] s2
    by simp
  have p: "protect example_env (bearer ''tok-s2'')
      = Respond \<lparr>status = 401, success = False, message = msg_protect_deactivated, code = None\<rparr>"
    by (simp add: protect_def protect_admit_def reject_def example_verify_def
        example_students_def student2_def)
  have c7: "\<exists>r. protect example_env (bearer ''tok-s2'') = Respond r \<and> status r = 401 \<and> code r = None"
    using verifyToken_reason_codes [of example_env "bearer ''tok-s2''" _ _ _ _
        "\<lparr>status = 401, success = False, message = msg_protect_deactivated, code = None\<rparr>"] p
    by blast
  from c1 c2 c3 c4 c5 c6 c7 show ?thesis by blast
qed

text \<open>
  C1 as stated fails on \<^verbatim>\<open>protect\<close>: a request with no credential is answered 401 with a
  body that has no \<^verbatim>\<open>code\<close> field, not with NO_TOKEN.
\<close>

theorem protect_no_code_counterexample:
  "protect example_env bare_request
     = Respond \<lparr>status = 401, success = False, message = msg_protect_no_token, code = None\<rparr>"
  by (simp add: protect_def bare_request_def extractToken_def truthy_def reject_def)

subsection \<open>Deactivated principals\<close>

lemma sendTokenResponse_Sent:
  "\<exists>r. sendTokenResponse env u st ut = Sent r"
  by (simp add: sendTokenResponse_def Let_def)

lemma login_token_active:
  assumes "login env now body = Sent r" "l_token r \<noteq> None \<or> l_cookie r \<noteq> None"
  shows "\<exists>u. User_findOne env (normalizeEmail env (body_email body)) = Returns (Some u)
           \<and> isActive u"
  using assms unfolding login_def login_reject_def
  by (auto split: if_splits outcome.splits option.splits)

lemma studentLogin_token_active:
  assumes "studentLogin env now body = Sent r" "l_token r \<noteq> None \<or> l_cookie r \<noteq> None"
  shows "\<exists>u. Student_findOne env (trim env (body_studentNumber body)) = Returns (Some u)
           \<and> isActive u"
  using assms unfolding studentLogin_def login_reject_def
  by (auto split: if_splits outcome.splits option.splits)

lemma protect_deactivated:
  assumes "extractToken req = Some t" "t \<noteq> []" "jwt_verify env t = Returns d"
    and "(claim_userType d = Some ''student'' \<and> Student_findById env (claim_id d) = Returns (Some u))
       \<or> (claim_userType d \<in> {Some ''teacher'', Some ''admin''}
           \<and> User_findById env (claim_id d) = Returns (Some u))"
    and "\<not> isActive u"
  shows "protect env req = reject 401 msg_protect_deactivated None"
  using assms by (auto simp: protect_def protect_admit_def)

text \<open>
  C2, as the code has it. (a) When the account that \<^verbatim>\<open>POST /api/auth/login\<close> or
  \<^verbatim>\<open>POST /api/auth/student-login\<close> finds is inactive, a well-formed login is answered 401
  with no token and no cookie, whatever the password comparison would say; and a login
  response that carries a token or a cookie is always for an account that is active.
  (b) When a request presents a token that verifies, and the document its claims name is
  inactive in the store at that moment, both strict middlewares answer 401: the flag is
  read from the store on each request, the claims hold no such flag. \<^verbatim>\<open>verifyToken\<close>
  answers with code ACCOUNT_DEACTIVATED; \<^verbatim>\<open>protect\<close> answers with the message
  \<^verbatim>\<open>Hesap deaktif durumda\<close> and no \<^verbatim>\<open>code\<close> field.
\<close>

theorem inactive_principal_rejected:
  "(isEmail env (body_email body) \<and> body_password body \<noteq> []
      \<and> User_findOne env (normalizeEmail env (body_email body)) = Returns (Some u)
      \<and> \<not> isActive u \<longrightarrow>
      login env now body = login_reject 401 msg_account_deactivated)
   \<and> (body_studentNumber body \<noteq> [] \<and> body_password body \<noteq> []
      \<and> Student_findOne env (trim env (body_studentNumber body)) = Returns (Some u)
      \<and> \<not> isActive u \<longrightarrow>
      studentLogin env now body = login_reject 401 msg_account_deactivated)
   \<and> (login env now body = Sent r \<and> (l_token r \<noteq> None \<or> l_cookie r \<noteq> None) \<longrightarrow>
        (\<exists>u'. User_findOne env (normalizeEmail env (body_email body)) = Returns (Some u')
           \<and> isActive u'))
   \<and> (studentLogin env now body = Sent r \<and> (l_token r \<noteq> None \<or> l_cookie r \<noteq> None) \<longrightarrow>
        (\<exists>u'. Student_findOne env (trim env (body_studentNumber body)) = Returns (Some u')
           \<and> isActive u'))
   \<and> (extractToken req = Some t \<and> t \<noteq> [] \<and> jwt_verify env t = Returns d
      \<and> ((claim_userType d = Some ''student''
            \<and> Student_findById env (claim_id d) = Returns (Some u))
          \<or> (claim_userType d \<in> {Some ''teacher'', Some ''admin''}
            \<and> User_findById env (claim_id d) = Returns (Some u)))
      \<and> \<not> isActive u \<longrightarrow>
      verifyToken env req = reject 401 msg_account_deactivated (Some ''ACCOUNT_DEACTIVATED'')
      \<and> protect env req = reject 401 msg_protect_deactivated None)"
proof (intro conjI impI)
  assume "isEmail env (body_email body) \<and> body_password body \<noteq> []
      \<and> User_findOne env (normalizeEmail env (body_email body)) = Returns (Some u)
      \<and> \<not> isActive u"
  then show "login env now body = login_reject 401 msg_account_deactivated"
    by (simp add: login_def)
next
  assume "body_studentNumber body \<noteq> [] \<and> body_password body \<noteq> []
      \<and> Student_findOne env (trim env (body_studentNumber body)) = Returns (Some u)
      \<and> \<not> isActive u"
  then show "studentLogin env now body = login_reject 401 msg_account_deactivated"
    by (simp add: studentLogin_def)
next
  assume "login env now body = Sent r \<and> (l_token r \<noteq> None \<or> l_cookie r \<noteq> None)"
  then show "\<exists>u'. User_findOne env (normalizeEmail env (body_email body)) = Returns (Some u')
           \<and> isActive u'"
    using login_token_active by blast
next
  assume "studentLogin env now body = Sent r \<and> (l_token r \<noteq> None \<or> l_cookie r \<noteq> None)"
  then show "\<exists>u'. Student_findOne env (trim env (body_studentNumber body)) = Returns (Some u')
           \<and> isActive u'"
    using studentLogin_token_active by blast
next
  assume "extractToken req = Some t \<and> t \<noteq> [] \<and> jwt_verify env t = Returns d
      \<and> ((claim_userType d = Some ''student''
            \<and> Student_findById env (claim_id d) = Returns (Some u))
          \<or> (claim_userType d \<in> {Some ''teacher'', Some ''admin''}
            \<and> User_findById env (claim_id d) = Returns (Some u)))
      \<and> \<not> isActive u"
  then show "verifyToken env req
      = reject 401 msg_account_deactivated (Some ''ACCOUNT_DEACTIVATED'')"
    and "protect env req = reject 401 msg_protect_deactivated None"
    using verifyToken_deactivated [of req t env d u] protect_deactivated [of req t env d u]
    by blast+
qed

theorem inactive_principal_rejected_witness:
  "login example_env 5 \<lparr>body_email = ''t2@x.com'', body_studentNumber = [], body_password = ''t2''\<rparr>
     = login_reject 401 msg_account_deactivated
   \<and> studentLogin example_env 5
       \<lparr>body_email = [], body_studentNumber = ''1002'', body_password = ''s2''\<rparr>
     = login_reject 401 msg_account_deactivated
   \<and> verifyToken example_env (bearer ''tok-t2'')
     = reject 401 msg_account_deactivated (Some ''ACCOUNT_DEACTIVATED'')
   \<and> protect example_env (bearer ''tok-s2'') = reject 401 msg_protect_deactivated None
   \<and> (\<exists>u. User_findOne example_env ''t1@x.com'' = Returns (Some u) \<and> isActive u)"
proof -
  let ?b1 = "\<lparr>body_email = ''t2@x.com'', body_studentNumber = [], body_password = ''t2''\<rparr>"
  let ?b2 = "\<lparr>body_email = [], body_studentNumber = ''1002'', body_password = ''s2''\<rparr>"
  let ?d = "\<lparr>claim_id = ''t2'', claim_userType = Some ''teacher''\<rparr>"
  have h1: "isEmail example_env (body_email ?b1) \<and> body_password ?b1 \<noteq> []
      \<and> User_findOne example_env (normalizeEmail example_env (body_email ?b1))
          = Returns (Some teacher2)
      \<and> \<not> isActive teacher2"
    by (simp add: example_by_email_def teacher2_def)
  have h2: "body_studentNumber ?b2 \<noteq> [] \<and> body_password ?b2 \<noteq> []
      \<and> Student_findOne example_env (trim example_env (body_studentNumber ?b2))
          = Returns (Some student2)
      \<and> \<not> isActive student2"
    by (simp add: example_by_number_def student2_def)
  have h3: "extractToken (bearer ''tok-t2'') = Some ''tok-t2'' \<and> ''tok-t2'' \<noteq> []
      \<and> jwt_verify example_env ''tok-t2'' = Returns ?d
      \<and> ((claim_userType ?d = Some ''student''
            \<and> Student_findById example_env (claim_id ?d) = Returns (Some teacher2))
          \<or> (claim_userType ?d \<in> {Some ''teacher'', Some ''admin''}
            \<and> User_findById example_env (claim_id ?d) = Returns (Some teacher2)))
      \<and> \<not> isActive teacher2"
    by (simp add: example_verify_def example_users_def teacher2_def)
  have c1: "login example_env 5 ?b1 = login_reject 401 msg_account_deactivated"
    using inactive_principal_rejected [of example_env ?b1 teacher2 5] h1 by blast
  have c2: "studentLogin example_env 5 ?b2 = login_reject 401 msg_account_deactivated"
    using inactive_principal_rejected [of example_env ?b2 student2 5] h2 by blast
  have c3: "verifyToken example_env (bearer ''tok-t2'')
     = reject 401 msg_account_deactivated (Some ''ACCOUNT_DEACTIVATED'')"
    using inactive_principal_rejected [of example_env _ teacher2 _ _ "bearer ''tok-t2''"
        "''tok-t2''" ?d] h3 by blast
  let ?e = "\<lparr>claim_id = ''s2'', claim_userType = Some ''student''\<rparr>"
  have h5: "extractToken (bearer ''tok-s2'') = Some ''tok-s2'' \<and> ''tok-s2'' \<noteq> []
      \<and> jwt_verify example_env ''tok-s2'' = Returns ?e
      \<and> ((claim_userType ?e = Some ''student''
            \<and> Student_findById example_env (claim_id ?e) = Returns (Some student2))
          \<or> (claim_userType ?e \<in> {Some ''teacher'', Some ''admin''}
            \<and> User_findById example_env (claim_id ?e) = Returns (Some student2)))
      \<and> \<not> isActive student2"
    by (simp add: example_verify_def example_students_def student2_def)
  have c5: "protect example_env (bearer ''tok-s2'') = reject 401 msg_protect_deactivated None"
    using inactive_principal_rejected [of example_env _ student2 _ _ "bearer ''tok-s2''"
        "''tok-s2''" ?e] h5 by blast
  let ?b3 = "\<lparr>body_email = ''t1@x.com'', body_studentNumber = [], body_password = ''t1''\<rparr>"
  let ?ok = "\<lparr>l_status = 200, l_success = True, l_message = msg_teacher_login_ok,
              l_token = Some ''tok-t1'', l_cookie = Some ''tok-t1''\<rparr>"
  have h4: "login example_env 5 ?b3 = Sent ?ok \<and> (l_token ?ok \<noteq> None \<or> l_cookie ?ok \<noteq> None)"
    by (simp add: login_def example_by_email_def teacher1_def sendTokenResponse_def
        generateToken_def Let_def)
  have c4: "\<exists>u. User_findOne example_env ''t1@x.com'' = Returns (Some u) \<and> isActive u"
    using inactive_principal_rejected [of example_env ?b3 _ 5 ?ok] h4 by simp
  from c1 c2 c3 c4 c5 show ?thesis by blast
qed

text \<open>
  C2 as stated fails on \<^verbatim>\<open>protect\<close>: the valid token of the deactivated teacher
  \<open>t2\<close> is rejected with 401, but the body has no \<^verbatim>\<open>code\<close> field, so not with
  ACCOUNT_DEACTIVATED.
\<close>

theorem protect_deactivated_counterexample:
  "protect example_env (bearer ''tok-t2'')
     = Respond \<lparr>status = 401, success = False, message = msg_protect_deactivated, code = None\<rparr>"
  by (simp add: protect_def protect_admit_def reject_def example_verify_def example_users_def
      teacher2_def)

subsection \<open>Role gates\<close>

text \<open>
  C3, as the code has it. \<^verbatim>\<open>authorizeRoles\<close>: when the request carries a principal whose
  kind is not among the allowed roles, the answer is HTTP 403 with code
  INSUFFICIENT_PERMISSION, and the message holds every allowed role and ends with the
  caller's kind; a request admitted by \<^verbatim>\<open>verifyToken\<close> always carries an active principal
  with its kind set. \<^verbatim>\<open>authorize\<close>: under the same condition the answer is HTTP 403 as
  well, but with one fixed message and no \<^verbatim>\<open>code\<close> field.
\<close>

theorem role_gate_denial:
  "(user req = Some u \<and> userType u = Some r \<and> r \<notin> set allowed \<longrightarrow>
      authorizeRoles allowed req
        = reject 403 (msg_insufficient allowed (Some r)) (Some ''INSUFFICIENT_PERMISSION'')
      \<and> suffix r (msg_insufficient allowed (Some r))
      \<and> (\<forall>a\<in>set allowed. sublist a (msg_insufficient allowed (Some r))))
   \<and> (verifyToken env req0 = Next req \<longrightarrow>
        (\<exists>u' r'. user req = Some u' \<and> isActive u' \<and> userType u' = Some r'))
   \<and> (user req = Some u \<and> \<not> js_includes allowed (or_else (userType u) (role u)) \<longrightarrow>
        authorize allowed req = reject 403 msg_not_permitted None)"
proof (intro conjI impI)
  assume a: "user req = Some u \<and> userType u = Some r \<and> r \<notin> set allowed"
  then show "authorizeRoles allowed req
        = reject 403 (msg_insufficient allowed (Some r)) (Some ''INSUFFICIENT_PERMISSION'')"
    by (simp add: authorizeRoles_def js_includes_def)
  show "suffix r (msg_insufficient allowed (Some r))"
    using msg_insufficient_names by blast
  show "\<forall>a\<in>set allowed. sublist a (msg_insufficient allowed (Some r))"
    using msg_insufficient_names by blast
next
  assume "verifyToken env req0 = Next req"
  then show "\<exists>u' r'. user req = Some u' \<and> isActive u' \<and> userType u' = Some r'"
    using verifyToken_Next by blast
next
  assume "user req = Some u \<and> \<not> js_includes allowed (or_else (userType u) (role u))"
  then show "authorize allowed req = reject 403 msg_not_permitted None"
    by (simp add: authorize_def)
qed

theorem role_gate_denial_witness:
  "authorizeRoles [''teacher'', ''admin''] (as_user (student1\<lparr>userType := Some ''student''\<rparr>))
     = Respond \<lparr>status = 403, success = False,
         message = ''Bu i'' @ [CHR 0xC5, CHR 0x9F] @ ''lem i'' @ [CHR 0xC3, CHR 0xA7]
           @ ''in teacher veya admin yetkisi gereklidir. Mevcut yetki: student'',
         code = Some ''INSUFFICIENT_PERMISSION''\<rparr>
   \<and> sublist ''teacher'' (msg_insufficient [''teacher'', ''admin''] (Some ''student''))
   \<and> sublist ''admin'' (msg_insufficient [''teacher'', ''admin''] (Some ''student''))
   \<and> suffix ''student'' (msg_insufficient [''teacher'', ''admin''] (Some ''student''))
   \<and> authorize [''teacher'', ''admin''] (as_user (student1\<lparr>userType := Some ''student''\<rparr>))
     = reject 403 msg_not_permitted None
   \<and> (\<exists>u r. user ((bearer ''tok-s1'')\<lparr>user := Some (student1\<lparr>userType := Some ''student''\<rparr>)\<rparr>) = Some u
         \<and> isActive u \<and> userType u = Some r)"
proof -
  let ?u = "student1\<lparr>userType := Some ''student''\<rparr>"
  have h: "user (as_user ?u) = Some ?u \<and> userType ?u = Some ''student''
      \<and> ''student'' \<notin> set [''teacher'', ''admin'']"
    by (simp add: as_user_def)
  have m: "msg_insufficient [''teacher'', ''admin''] (Some ''student'')
      = ''Bu i'' @ [CHR 0xC5, CHR 0x9F] @ ''lem i'' @ [CHR 0xC3, CHR 0xA7]
           @ ''in teacher veya admin yetkisi gereklidir. Mevcut yetki: student''"
    by (simp add: msg_insufficient_def render_def)
  have h2: "user (as_user ?u) = Some ?u
      \<and> \<not> js_includes [''teacher'', ''admin''] (or_else (userType ?u) (role ?u))"
    by (simp add: as_user_def js_includes_def or_else_def truthy_def)
  have h3: "verifyToken example_env (bearer ''tok-s1'') = Next ((bearer ''tok-s1'')\<lparr>user := Some ?u\<rparr>)"
    by (simp add: verifyToken_def verifyToken_admit_def example_verify_def example_students_def
        student1_def)
  have c1: "authorizeRoles [''teacher'', ''admin''] (as_user ?u)
        = reject 403 (msg_insufficient [''teacher'', ''admin''] (Some ''student''))
            (Some ''INSUFFICIENT_PERMISSION'')
      \<and> suffix ''student'' (msg_insufficient [''teacher'', ''admin''] (Some ''student''))
      \<and> (\<forall>a\<in>set [''teacher'', ''admin''].
            sublist a (msg_insufficient [''teacher'', ''admin''] (Some ''student'')))"
    using role_gate_denial [of "as_user ?u" ?u "''student''" "[''teacher'', ''admin'']"] h
    by blast
  have c2: "authorize [''teacher'', ''admin''] (as_user ?u) = reject 403 msg_not_permitted None"
    using role_gate_denial [of "as_user ?u" ?u _ "[''teacher'', ''admin'']"] h2
    by blast
  have c3: "\<exists>u r. user ((bearer ''tok-s1'')\<lparr>user := Some ?u\<rparr>) = Some u \<and> isActive u \<and> userType u = Some r"
    using role_gate_denial [of "(bearer ''tok-s1'')\<lparr>user := Some ?u\<rparr>" _ _ _
        example_env "bearer ''tok-s1''"] h3
    by blast
  from c1 c2 c3 show ?thesis
    by (simp add: m reject_def)
qed

text \<open>
  C3 as stated fails on \<^verbatim>\<open>authorize\<close>: a student on an admin-only route is answered 403
  with the fixed message and no \<^verbatim>\<open>code\<close> field.
\<close>

theorem authorize_no_code_counterexample:
  "authorize [''admin''] (as_user (student1\<lparr>userType := Some ''student''\<rparr>))
     = Respond \<lparr>status = 403, success = False, message = msg_not_permitted, code = None\<rparr>"
  by (simp add: authorize_def as_user_def js_includes_def or_else_def truthy_def reject_def
      student1_def)

subsection \<open>Order of credential extraction\<close>

text \<open>
  C4. A header \<^verbatim>\<open>Bearer <token>\<close> decides the credential whatever the cookie holds: the
  token is the second space-separated part of the header. Without a header that starts with
  \<^verbatim>\<open>Bearer\<close>, a non-empty \<^verbatim>\<open>token\<close> cookie is the credential. With neither such a
  header nor such a cookie (a header of another scheme is no credential) there is no
  credential; \<^verbatim>\<open>GET /api/auth/check\<close> then answers 200 with
  \<^verbatim>\<open>authenticated: false\<close>, \<^verbatim>\<open>optionalAuth\<close> passes the request on unchanged, and only
  the protecting middleware rejects (401 NO_TOKEN).
\<close>

theorem extractToken_order:
  "(authorization req = Some (''Bearer '' @ t) \<longrightarrow>
      extractToken req = Some (takeWhile (\<lambda>x. x \<noteq> CHR '' '') t))
   \<and> (authorization req = Some h \<and> h \<noteq> [] \<and> prefix ''Bearer'' h \<longrightarrow>
        extractToken req = at_index (split_on CHR '' '' h) 1)
   \<and> ((authorization req = None \<or> (\<exists>h'. authorization req = Some h' \<and> \<not> prefix ''Bearer'' h'))
        \<and> truthy (cookie_token req) \<longrightarrow>
        extractToken req = cookie_token req)
   \<and> ((authorization req = None \<or> (\<exists>h'. authorization req = Some h' \<and> \<not> prefix ''Bearer'' h'))
        \<and> \<not> truthy (cookie_token req) \<longrightarrow>
        extractToken req = None
        \<and> auth_check env req = not_authenticated
        \<and> optionalAuth env req = Next req
        \<and> verifyToken env req = reject 401 msg_no_token (Some ''NO_TOKEN''))"
proof (intro conjI impI)
  assume "authorization req = Some (''Bearer '' @ t)"
  then show "extractToken req = Some (takeWhile (\<lambda>x. x \<noteq> CHR '' '') t)"
    unfolding extractToken_def by (simp add: bearer_second_part [simplified])
next
  assume "authorization req = Some h \<and> h \<noteq> [] \<and> prefix ''Bearer'' h"
  then show "extractToken req = at_index (split_on CHR '' '' h) 1"
    by (simp add: extractToken_def)
next
  assume "(authorization req = None \<or> (\<exists>h'. authorization req = Some h' \<and> \<not> prefix ''Bearer'' h'))
        \<and> truthy (cookie_token req)"
  then show "extractToken req = cookie_token req"
    by (auto simp: extractToken_def)
next
  assume a: "(authorization req = None \<or> (\<exists>h'. authorization req = Some h' \<and> \<not> prefix ''Bearer'' h'))
        \<and> \<not> truthy (cookie_token req)"
  then show n: "extractToken req = None"
    by (auto simp: extractToken_def)
  from n show "auth_check env req = not_authenticated"
    by (simp add: auth_check_def)
  from n show "optionalAuth env req = Next req"
    by (simp add: optionalAuth_def)
  from n show "verifyToken env req = reject 401 msg_no_token (Some ''NO_TOKEN'')"
    by (simp add: verifyToken_def)
qed

theorem extractToken_order_witness:
  "extractToken \<lparr>authorization = Some ''Bearer abc'', cookie_token = Some ''xyz'', user = None\<rparr>
     = Some ''abc''
   \<and> extractToken \<lparr>authorization = None, cookie_token = Some ''xyz'', user = None\<rparr> = Some ''xyz''
   \<and> extractToken \<lparr>authorization = Some ''Basic abc'', cookie_token = Some ''xyz'', user = None\<rparr>
     = Some ''xyz''
   \<and> extractToken \<lparr>authorization = Some ''Basic tok-t1'', cookie_token = None, user = None\<rparr> = None
   \<and> verifyToken example_env \<lparr>authorization = Some ''Basic tok-t1'', cookie_token = None, user = None\<rparr>
     = reject 401 msg_no_token (Some ''NO_TOKEN'')
   \<and> extractToken \<lparr>authorization = Some ''Bearer abc'', cookie_token = None, user = None\<rparr>
     = at_index (split_on CHR '' '' ''Bearer abc'') 1
   \<and> extractToken bare_request = None
   \<and> auth_check example_env bare_request = \<lparr>c_status = 200, authenticated = False, c_userType = None\<rparr>
   \<and> optionalAuth example_env bare_request = Next bare_request
   \<and> verifyToken example_env bare_request = reject 401 msg_no_token (Some ''NO_TOKEN'')"
proof -
  let ?both = "\<lparr>authorization = Some ''Bearer abc'', cookie_token = Some ''xyz'', user = None\<rparr>"
  let ?cookie = "\<lparr>authorization = None, cookie_token = Some ''xyz'', user = None\<rparr>"
  let ?basic = "\<lparr>authorization = Some ''Basic abc'', cookie_token = Some ''xyz'', user = None\<rparr>"
  have c1: "extractToken ?both = Some ''abc''"
    using extractToken_order [of ?both "''abc''"] by simp
  have c2: "extractToken ?cookie = Some ''xyz''"
    using extractToken_order [of ?cookie] by (simp add: truthy_def)
  have c3: "extractToken ?basic = Some ''xyz''"
    using extractToken_order [of ?basic] by (simp add: truthy_def)
  have c4: "extractToken bare_request = None
      \<and> auth_check example_env bare_request = not_authenticated
      \<and> optionalAuth example_env bare_request = Next bare_request
      \<and> verifyToken example_env bare_request = reject 401 msg_no_token (Some ''NO_TOKEN'')"
    using extractToken_order [of bare_request _ _ example_env]
    by (simp add: truthy_def bare_request_def)
  let ?other = "\<lparr>authorization = Some ''Basic tok-t1'', cookie_token = None, user = None\<rparr>"
  let ?hdr = "\<lparr>authorization = Some ''Bearer abc'', cookie_token = None, user = None\<rparr>"
  have c5: "extractToken ?other = None
      \<and> verifyToken example_env ?other = reject 401 msg_no_token (Some ''NO_TOKEN'')"
    using extractToken_order [of ?other _ _ example_env]
    by (simp add: truthy_def)
  have c6: "extractToken ?hdr = at_index (split_on CHR '' '' ''Bearer abc'') 1"
    using extractToken_order [of ?hdr _ "''Bearer abc''"] by simp
  from c1 c2 c3 c4 c5 c6 show ?thesis by (simp add: not_authenticated_def)
qed

subsection \<open>The verify operation of the token helper\<close>

text \<open>
  C5, as the code has it. \<^verbatim>\<open>verifyToken\<close> of \<^verbatim>\<open>jwtHelper.js\<close> returns the decoded claims
  when \<^verbatim>\<open>jwt.verify\<close> returns them and \<^verbatim>\<open>null\<close> whenever it throws, whatever the error:
  the caller cannot tell the causes apart. The causes are told apart only by the
  middleware \<^verbatim>\<open>verifyToken\<close>, which calls \<^verbatim>\<open>jwt.verify\<close> itself and maps
  TokenExpiredError to TOKEN_EXPIRED, JsonWebTokenError to TOKEN_MALFORMED and any other
  error to TOKEN_INVALID.
\<close>

theorem jwtHelper_verifyToken_collapses:
  "(jwt_verify env t = Returns d \<longrightarrow> jwtHelper_verifyToken env t = Some d)
   \<and> (jwt_verify env t = Throws n \<longrightarrow> jwtHelper_verifyToken env t = None)
   \<and> (extractToken req = Some t \<and> t \<noteq> [] \<and> jwt_verify env t = Throws n \<longrightarrow>
        (\<exists>m. verifyToken env req = reject 401 m
           (Some (if n = ''TokenExpiredError'' then ''TOKEN_EXPIRED''
                  else if n = ''JsonWebTokenError'' then ''TOKEN_MALFORMED''
                  else ''TOKEN_INVALID''))))"
  by (auto simp: jwtHelper_verifyToken_def verifyToken_jwt_throws verifyToken_catch_def)

theorem jwtHelper_verifyToken_collapses_witness:
  "jwtHelper_verifyToken example_env ''tok-t1''
     = Some \<lparr>claim_id = ''t1'', claim_userType = Some ''teacher''\<rparr>
   \<and> jwtHelper_verifyToken example_env ''tok-old'' = None
   \<and> (\<exists>m. verifyToken example_env (bearer ''tok-old'') = reject 401 m (Some ''TOKEN_EXPIRED''))"
proof -
  have h1: "jwt_verify example_env ''tok-t1''
      = Returns \<lparr>claim_id = ''t1'', claim_userType = Some ''teacher''\<rparr>"
    by (simp add: example_verify_def)
  have h2: "jwt_verify example_env ''tok-old'' = Throws ''TokenExpiredError''"
    by (simp add: example_verify_def)
  have h3: "extractToken (bearer ''tok-old'') = Some ''tok-old'' \<and> ''tok-old'' \<noteq> []"
    by simp
  have c1: "jwtHelper_verifyToken example_env ''tok-t1''
     = Some \<lparr>claim_id = ''t1'', claim_userType = Some ''teacher''\<rparr>"
    using jwtHelper_verifyToken_collapses [of example_env "''tok-t1''"] h1 by blast
  have c2: "jwtHelper_verifyToken example_env ''tok-old'' = None
      \<and> (\<exists>m. verifyToken example_env (bearer ''tok-old'') = reject 401 m (Some ''TOKEN_EXPIRED''))"
    using jwtHelper_verifyToken_collapses
      [of example_env "''tok-old''" _ "''TokenExpiredError''" "bearer ''tok-old''"] h2 h3
    by simp
  from c1 c2 show ?thesis by blast
qed

text \<open>
  C5 as stated fails: an expired token and a malformed one make \<^verbatim>\<open>jwt.verify\<close> throw
  different errors, and the helper returns the same \<^verbatim>\<open>null\<close> for both.
\<close>

theorem jwtHelper_verifyToken_counterexample:
  "jwt_verify example_env ''tok-old'' = Throws ''TokenExpiredError''
   \<and> jwt_verify example_env ''junk'' = Throws ''JsonWebTokenError''
   \<and> jwtHelper_verifyToken example_env ''tok-old'' = None
   \<and> jwtHelper_verifyToken example_env ''junk'' = None"
  by (simp add: jwtHelper_verifyToken_def example_verify_def)

section \<open>Properties of the trackers and the aggregate queries\<close>

subsection \<open>Store operations\<close>

lemma findOne_None_iff: "findOne p xs = None \<longleftrightarrow> (\<forall>x\<in>set xs. \<not> p x)"
  by (induction xs) auto

lemma findOne_Some_holds: "findOne p xs = Some x \<Longrightarrow> p x \<and> x \<in> set xs"
  by (induction xs) (auto split: if_splits)

lemma length_upsert:
  "length (upsert p f new xs) = (if findOne p xs = None then Suc (length xs) else length xs)"
  by (induction xs) auto

lemma set_upsert_subset:
  "set (upsert p f new xs) \<subseteq> insert new (set xs \<union> f ` {x \<in> set xs. p x})"
  by (induction xs) auto

lemma findOne_upsert:
  assumes "\<And>x. p x \<Longrightarrow> p (f x)" "p new"
  shows "findOne p (upsert p f new xs) = Some (case findOne p xs of None \<Rightarrow> new | Some x \<Rightarrow> f x)"
  using assms by (induction xs) auto

lemma findOne_upsert_other:
  assumes "\<And>x. p x \<Longrightarrow> \<not> q x" "\<And>x. p x \<Longrightarrow> \<not> q (f x)" "\<not> q new"
  shows "findOne q (upsert p f new xs) = findOne q xs"
  using assms by (induction xs) auto

lemma replaceOne_upsert:
  assumes "\<And>x. p x \<Longrightarrow> p (f x)" "p new"
  shows "replaceOne p y (upsert p f new xs) = upsert p (\<lambda>_. y) y xs"
  using assms by (induction xs) auto

lemma length_filter_upsert_fresh:
  assumes "\<And>x. x \<in> set xs \<Longrightarrow> p x \<Longrightarrow> \<not> P x" "P new" "\<And>x. p x \<Longrightarrow> P (f x)"
  shows "length (filter P (upsert p f new xs)) = Suc (length (filter P xs))"
  using assms by (induction xs) auto

lemma length_filter_drop_stale:
  assumes "\<And>x. x \<in> set xs \<Longrightarrow> p x \<Longrightarrow> \<not> P x"
  shows "length (filter P (filter (\<lambda>x. \<not> p x) xs)) = length (filter P xs)"
  using assms by (induction xs) auto

subsection \<open>The online count\<close>

lemma online_set_fields:
  "ou_lastActivity (online_set env req now sid u) = now"
  "ou_sessionId (online_set env req now sid u) = sid"
  "ou_userAgent (online_set env req now sid u) = or_default (h_user_agent req) []"
  by (simp_all add: online_set_def Let_def)

lemma online_insert_fields:
  "ou_lastActivity (online_insert env req now sid) = now"
  "ou_sessionId (online_insert env req now sid) = sid"
  "ou_userAgent (online_insert env req now sid) = or_default (h_user_agent req) []"
  "ou_loginTime (online_insert env req now sid) = now"
  by (simp_all add: online_insert_def online_set_def Let_def)

lemma trackOnlineUser_tracked:
  assumes "\<not> online_skip (t_path req)" "\<not> isBot (or_default (h_user_agent req) [])"
  shows "onlineUsers (trackOnlineUser env req now rand d)
     = upsert (\<lambda>u. ou_sessionId u = session_key req now rand)
         (online_set env req now (session_key req now rand))
         (online_insert env req now (session_key req now rand))
         (onlineUsers d)"
  using assms by (simp add: trackOnlineUser_def Let_def)

lemma session_key_present:
  "t_sessionID req = Some s \<Longrightarrow> s \<noteq> [] \<Longrightarrow> session_key req now rand = s"
  by (simp add: session_key_def or_default_def)

lemma session_key_absent:
  "\<not> truthy (t_sessionID req) \<Longrightarrow> session_key req now rand = guest_key now rand"
  by (auto simp: session_key_def or_default_def truthy_def split: option.splits)

text \<open>
  C6. \<^verbatim>\<open>getOnlineCount\<close> read at \<open>now\<close> is the number of stored presence records whose
  last activity is at most 30 minutes old. When every record of a session is older than
  that, the session adds nothing to the count. When such a session (stale or absent) then
  sends a request that the tracker records (a session identifier, a tracked path, no
  crawler signature) at a time inside the window of a later reading, that reading counts
  one more.
\<close>

theorem online_count_window:
  "getOnlineCount now d
     = card {i. i < length (onlineUsers d) \<and> now - ou_lastActivity (onlineUsers d ! i) \<le> 1800000}
   \<and> ((\<forall>u\<in>set (onlineUsers d). ou_sessionId u = s \<longrightarrow> ou_lastActivity u < now - 1800000) \<longrightarrow>
        getOnlineCount now d
          = getOnlineCount now (d\<lparr>onlineUsers := filter (\<lambda>u. ou_sessionId u \<noteq> s) (onlineUsers d)\<rparr>))
   \<and> (t_sessionID req = Some s \<and> s \<noteq> [] \<and> \<not> online_skip (t_path req)
        \<and> \<not> isBot (or_default (h_user_agent req) [])
        \<and> (\<forall>u\<in>set (onlineUsers d). ou_sessionId u = s \<longrightarrow> ou_lastActivity u < q - 1800000)
        \<and> q - 1800000 \<le> t \<longrightarrow>
        getOnlineCount q (trackOnlineUser env req t rand d) = getOnlineCount q d + 1)"
proof (intro conjI impI)
  have "{i. i < length (onlineUsers d) \<and> now - ou_lastActivity (onlineUsers d ! i) \<le> 1800000}
      = {i. i < length (onlineUsers d) \<and> now - 30 * 60 * 1000 \<le> ou_lastActivity (onlineUsers d ! i)}"
    by auto
  then show "getOnlineCount now d
     = card {i. i < length (onlineUsers d) \<and> now - ou_lastActivity (onlineUsers d ! i) \<le> 1800000}"
    unfolding getOnlineCount_def by (simp add: length_filter_conv_card)
next
  assume stale: "\<forall>u\<in>set (onlineUsers d). ou_sessionId u = s \<longrightarrow> ou_lastActivity u < now - 1800000"
  have "length (filter (\<lambda>u. now - 30 * 60 * 1000 \<le> ou_lastActivity u)
                  (filter (\<lambda>u. \<not> ou_sessionId u = s) (onlineUsers d)))
      = length (filter (\<lambda>u. now - 30 * 60 * 1000 \<le> ou_lastActivity u) (onlineUsers d))"
    by (rule length_filter_drop_stale) (use stale in force)
  then show "getOnlineCount now d
          = getOnlineCount now (d\<lparr>onlineUsers := filter (\<lambda>u. ou_sessionId u \<noteq> s) (onlineUsers d)\<rparr>)"
    by (simp add: getOnlineCount_def)
next
  assume a: "t_sessionID req = Some s \<and> s \<noteq> [] \<and> \<not> online_skip (t_path req)
        \<and> \<not> isBot (or_default (h_user_agent req) [])
        \<and> (\<forall>u\<in>set (onlineUsers d). ou_sessionId u = s \<longrightarrow> ou_lastActivity u < q - 1800000)
        \<and> q - 1800000 \<le> t"
  then have key: "session_key req t rand = s"
    by (simp add: session_key_present)
  have tracked: "onlineUsers (trackOnlineUser env req t rand d)
     = upsert (\<lambda>u. ou_sessionId u = s) (online_set env req t s) (online_insert env req t s)
         (onlineUsers d)"
    using a trackOnlineUser_tracked [of req env t rand d] key by simp
  have "length (filter (\<lambda>u. q - 30 * 60 * 1000 \<le> ou_lastActivity u)
          (upsert (\<lambda>u. ou_sessionId u = s) (online_set env req t s) (online_insert env req t s)
             (onlineUsers d)))
      = Suc (length (filter (\<lambda>u. q - 30 * 60 * 1000 \<le> ou_lastActivity u) (onlineUsers d)))"
  proof (rule length_filter_upsert_fresh)
    fix x assume "x \<in> set (onlineUsers d)" "ou_sessionId x = s"
    with a have "ou_lastActivity x < q - 1800000" by blast
    then show "\<not> q - 30 * 60 * 1000 \<le> ou_lastActivity x" by simp
  next
    show "q - 30 * 60 * 1000 \<le> ou_lastActivity (online_insert env req t s)"
      using a by (simp add: online_insert_fields)
  next
    fix x show "q - 30 * 60 * 1000 \<le> ou_lastActivity (online_set env req t s x)"
      using a by (simp add: online_set_fields)
  qed
  then show "getOnlineCount q (trackOnlineUser env req t rand d) = getOnlineCount q d + 1"
    by (simp add: getOnlineCount_def tracked)
qed

lemma not_bot_Firefox: "\<not> isBot ''Firefox''"
  by (simp add: isBot_def BOT_PATTERNS_def contains_ci_def lower_char_def)

lemma page_request_simps [simp]:
  "t_path (page_request path sid ua) = path"
  "t_sessionID (page_request path sid ua) = sid"
  "h_user_agent (page_request path sid ua) = ua"
  "h_referrer (page_request path sid ua) = None"
  "h_page_title (page_request path sid ua) = None"
  "t_user (page_request path sid ua) = None"
  "getClientIP (page_request path sid ua) = ''10.0.0.7''"
  by (simp_all add: page_request_def getClientIP_def first_truthy_def truthy_def or_default_def)

theorem online_count_window_witness:
  "getOnlineCount 2000000 stale_db = 0
   \<and> getOnlineCount 2000000
        (trackOnlineUser example_track_env (page_request ''/about'' (Some ''s1'') (Some ''Firefox''))
           1900000 ''0.5'' stale_db) = 1"
proof -
  let ?req = "page_request ''/about'' (Some ''s1'') (Some ''Firefox'')"
  have stale: "\<forall>u\<in>set (onlineUsers stale_db).
      ou_sessionId u = ''s1'' \<longrightarrow> ou_lastActivity u < 2000000 - 1800000"
    by (simp add: stale_db_def online_insert_fields)
  have "getOnlineCount 2000000 stale_db
      = getOnlineCount 2000000
          (stale_db\<lparr>onlineUsers := filter (\<lambda>u. ou_sessionId u \<noteq> ''s1'') (onlineUsers stale_db)\<rparr>)"
    using online_count_window [of 2000000 stale_db "''s1''"] stale by blast
  also have "\<dots> = 0"
    by (simp add: getOnlineCount_def stale_db_def online_insert_fields)
  finally have zero: "getOnlineCount 2000000 stale_db = 0" .
  have h: "t_sessionID ?req = Some ''s1'' \<and> ''s1'' \<noteq> [] \<and> \<not> online_skip (t_path ?req)
        \<and> \<not> isBot (or_default (h_user_agent ?req) [])
        \<and> (\<forall>u\<in>set (onlineUsers stale_db).
              ou_sessionId u = ''s1'' \<longrightarrow> ou_lastActivity u < 2000000 - 1800000)
        \<and> (2000000::int) - 1800000 \<le> 1900000"
    using stale by (simp add: online_skip_def or_default_def not_bot_Firefox)
  have one: "getOnlineCount 2000000 (trackOnlineUser example_track_env ?req 1900000 ''0.5'' stale_db)
      = getOnlineCount 2000000 stale_db + 1"
    using online_count_window [of _ stale_db "''s1''" ?req 2000000 1900000 example_track_env "''0.5''"] h
    by blast
  from zero one show ?thesis by simp
qed

subsection \<open>Crawlers\<close>

lemma visitor_set_fields:
  "v_ip (visitor_set env req now v) = v_ip v"
  "v_sessionId (visitor_set env req now v) = v_sessionId v"
  "v_userAgent (visitor_set env req now v) = or_default (h_user_agent req) []"
  "v_isBot (visitor_set env req now v) = False"
  "v_visitCount (visitor_set env req now v) = v_visitCount v"
  "v_pages (visitor_set env req now v) = v_pages v"
  "v_lastVisit (visitor_set env req now v) = now"
  "v_device (visitor_set env req now v)
     = ua_device (analyzeUserAgent env (or_default (h_user_agent req) []))"
  by (simp_all add: visitor_set_def Let_def)

lemma visitor_insert_fields:
  "v_ip (visitor_insert env req now sid) = getClientIP req"
  "v_sessionId (visitor_insert env req now sid) = sid"
  "v_userAgent (visitor_insert env req now sid) = or_default (h_user_agent req) []"
  "v_isBot (visitor_insert env req now sid) = False"
  "v_visitCount (visitor_insert env req now sid) = 0"
  "v_pages (visitor_insert env req now sid) = []"
  "v_lastVisit (visitor_insert env req now sid) = now"
  "v_device (visitor_insert env req now sid)
     = ua_device (analyzeUserAgent env (or_default (h_user_agent req) []))"
  by (simp_all add: visitor_insert_def visitor_set_def Let_def)

lemma visit_doc_fields:
  "v_ip (visit_doc env req now rand d) = getClientIP req"
  "v_sessionId (visit_doc env req now rand d) = session_key req now rand"
  "v_userAgent (visit_doc env req now rand d) = or_default (h_user_agent req) []"
  "v_isBot (visit_doc env req now rand d) = False"
  "v_lastVisit (visit_doc env req now rand d) = now"
  "v_device (visit_doc env req now rand d)
     = ua_device (analyzeUserAgent env (or_default (h_user_agent req) []))"
  "v_visitCount (visit_doc env req now rand d)
     = (case findOne (visitor_key (getClientIP req) (session_key req now rand)) (visitors d) of
          None \<Rightarrow> 0 | Some v \<Rightarrow> v_visitCount v) + 1"
  "v_pages (visit_doc env req now rand d)
     = (case findOne (visitor_key (getClientIP req) (session_key req now rand)) (visitors d) of
          None \<Rightarrow> [] | Some v \<Rightarrow> v_pages v) @ [page_of req now]"
  by (auto simp: visit_doc_def Let_def visitor_set_fields visitor_insert_fields visitor_key_def
      split: option.splits dest: findOne_Some_holds)

lemma updateSiteStats_keeps:
  "visitors (updateSiteStats env now d) = visitors d"
  "onlineUsers (updateSiteStats env now d) = onlineUsers d"
  by (simp_all add: updateSiteStats_def Let_def)

lemma trackVisitor_visitors:
  assumes "\<not> visitor_skip (t_path req)" "\<not> isBot (or_default (h_user_agent req) [])"
  shows "visitors (trackVisitor env req now rand d)
     = (if save_accepts env (visit_doc env req now rand d) then
          upsert (visitor_key (getClientIP req) (session_key req now rand))
            (\<lambda>_. visit_doc env req now rand d) (visit_doc env req now rand d) (visitors d)
        else
          upsert (visitor_key (getClientIP req) (session_key req now rand))
            (visitor_set env req now) (visitor_insert env req now (session_key req now rand))
            (visitors d))"
proof -
  let ?key = "visitor_key (getClientIP req) (session_key req now rand)"
  have "replaceOne ?key (visit_doc env req now rand d)
          (upsert ?key (visitor_set env req now)
             (visitor_insert env req now (session_key req now rand)) (visitors d))
      = upsert ?key (\<lambda>_. visit_doc env req now rand d) (visit_doc env req now rand d) (visitors d)"
    by (rule replaceOne_upsert)
      (simp_all add: visitor_key_def visitor_set_fields visitor_insert_fields)
  then show ?thesis
    using assms by (simp add: trackVisitor_def Let_def updateSiteStats_keeps)
qed

lemma trackVisitor_onlineUsers:
  "onlineUsers (trackVisitor env req now rand d) = onlineUsers d"
  by (simp add: trackVisitor_def Let_def updateSiteStats_keeps)

lemma trackOnlineUser_visitors:
  "visitors (trackOnlineUser env req now rand d) = visitors d"
  by (simp add: trackOnlineUser_def Let_def)

lemma bot_free_trackOnlineUser:
  assumes "bot_free d"
  shows "bot_free (trackOnlineUser env req now rand d)"
proof (cases "online_skip (t_path req) \<or> isBot (or_default (h_user_agent req) [])")
  case True
  then show ?thesis using assms by (auto simp: trackOnlineUser_def Let_def)
next
  case False
  let ?sid = "session_key req now rand"
  have sub: "set (onlineUsers (trackOnlineUser env req now rand d))
      \<subseteq> insert (online_insert env req now ?sid)
          (set (onlineUsers d) \<union> online_set env req now ?sid ` {x \<in> set (onlineUsers d). ou_sessionId x = ?sid})"
    using False trackOnlineUser_tracked [of req env now rand d] set_upsert_subset by metis
  have "\<not> isBot (ou_userAgent u)" if "u \<in> set (onlineUsers (trackOnlineUser env req now rand d))" for u
    using that sub False assms
    by (auto simp: bot_free_def online_insert_fields online_set_fields)
  then show ?thesis
    using assms by (simp add: bot_free_def trackOnlineUser_visitors)
qed

lemma bot_free_trackVisitor:
  assumes "bot_free d"
  shows "bot_free (trackVisitor env req now rand d)"
proof (cases "visitor_skip (t_path req) \<or> isBot (or_default (h_user_agent req) [])")
  case True
  then show ?thesis using assms by (auto simp: trackVisitor_def Let_def)
next
  case False
  let ?key = "visitor_key (getClientIP req) (session_key req now rand)"
  let ?doc = "visit_doc env req now rand d"
  have clean: "\<not> isBot (v_userAgent v) \<and> \<not> v_isBot v"
    if "v \<in> set (visitors (trackVisitor env req now rand d))" for v
  proof (cases "save_accepts env ?doc")
    case True
    then have "v \<in> insert ?doc (set (visitors d) \<union> (\<lambda>_. ?doc) ` {x \<in> set (visitors d). ?key x})"
      using that False trackVisitor_visitors [of req env now rand d]
        set_upsert_subset [of ?key "\<lambda>_. ?doc" ?doc "visitors d"] by auto
    then show ?thesis
      using False assms by (auto simp: bot_free_def visit_doc_fields)
  next
    case no: False
    let ?ins = "visitor_insert env req now (session_key req now rand)"
    have "v \<in> insert ?ins (set (visitors d) \<union> visitor_set env req now ` {x \<in> set (visitors d). ?key x})"
      using that False no trackVisitor_visitors [of req env now rand d]
        set_upsert_subset [of ?key "visitor_set env req now" ?ins "visitors d"] by auto
    then show ?thesis
      using False assms by (auto simp: bot_free_def visitor_set_fields visitor_insert_fields)
  qed
  then show ?thesis
    using assms by (simp add: bot_free_def trackVisitor_onlineUsers)
qed

text \<open>
  C8. A request whose user-agent matches the crawler-signature list leaves the whole store
  as it was, in \<^verbatim>\<open>trackOnlineUser\<close>, in \<^verbatim>\<open>trackVisitor\<close> and in the \<^verbatim>\<open>analytics\<close>
  middleware that calls both. Every tracking call, whatever the request, keeps the store
  free of records that carry a crawler's user-agent or a set \<^verbatim>\<open>isBot\<close> flag.
\<close>

theorem bots_never_recorded:
  "(isBot (or_default (h_user_agent req) []) \<longrightarrow>
      trackOnlineUser env req now rand d = d
      \<and> trackVisitor env req now rand d = d
      \<and> analytics env req now rand now' rand' d = d)
   \<and> (bot_free d \<longrightarrow>
        bot_free (trackOnlineUser env req now rand d)
        \<and> bot_free (trackVisitor env req now rand d)
        \<and> bot_free (analytics env req now rand now' rand' d))"
proof (intro conjI impI)
  assume b: "isBot (or_default (h_user_agent req) [])"
  show 1: "trackOnlineUser env req now rand d = d"
    using b by (simp add: trackOnlineUser_def Let_def)
  show 2: "trackVisitor env req now rand d = d"
    using b by (simp add: trackVisitor_def Let_def)
  show "analytics env req now rand now' rand' d = d"
    using b by (simp add: analytics_def trackOnlineUser_def trackVisitor_def Let_def)
next
  assume f: "bot_free d"
  show "bot_free (trackOnlineUser env req now rand d)"
    using f by (rule bot_free_trackOnlineUser)
  show "bot_free (trackVisitor env req now rand d)"
    using f by (rule bot_free_trackVisitor)
  show "bot_free (analytics env req now rand now' rand' d)"
    unfolding analytics_def using f bot_free_trackOnlineUser bot_free_trackVisitor by blast
qed

lemma is_bot_Googlebot: "isBot ''Googlebot''"
  by (simp add: isBot_def BOT_PATTERNS_def contains_ci_def lower_char_def)

theorem bots_never_recorded_witness:
  "trackOnlineUser example_track_env (page_request ''/about'' (Some ''s1'') (Some ''Googlebot''))
       5 ''0.5'' stale_db = stale_db
   \<and> trackVisitor example_track_env (page_request ''/about'' (Some ''s1'') (Some ''Googlebot''))
       5 ''0.5'' stale_db = stale_db
   \<and> bot_free (trackVisitor example_track_env (page_request ''/about'' (Some ''s1'') (Some ''Firefox''))
       5 ''0.5'' empty_db)"
proof -
  let ?bot = "page_request ''/about'' (Some ''s1'') (Some ''Googlebot'')"
  let ?req = "page_request ''/about'' (Some ''s1'') (Some ''Firefox'')"
  have b: "isBot (or_default (h_user_agent ?bot) [])"
    by (simp add: or_default_def is_bot_Googlebot)
  have f: "bot_free empty_db"
    by (simp add: bot_free_def empty_db_def)
  have c1: "trackOnlineUser example_track_env ?bot 5 ''0.5'' stale_db = stale_db
      \<and> trackVisitor example_track_env ?bot 5 ''0.5'' stale_db = stale_db"
    using bots_never_recorded [of ?bot example_track_env 5 "''0.5''" stale_db] b by blast
  have c2: "bot_free (trackVisitor example_track_env ?req 5 ''0.5'' empty_db)"
    using bots_never_recorded [of ?req example_track_env 5 "''0.5''" empty_db] f by blast
  from c1 c2 show ?thesis by blast
qed

subsection \<open>Visit counting\<close>

lemma visitor_key_visit_doc:
  "visitor_key (getClientIP req) (session_key req now rand) (visit_doc env req now rand d)"
  by (simp add: visitor_key_def visit_doc_fields)

lemma trackVisitor_saved:
  assumes "\<not> visitor_skip (t_path req)" "\<not> isBot (or_default (h_user_agent req) [])"
    and "save_accepts env (visit_doc env req now rand d)"
  shows "visitors (trackVisitor env req now rand d)
       = upsert (visitor_key (getClientIP req) (session_key req now rand))
           (\<lambda>_. visit_doc env req now rand d) (visit_doc env req now rand d) (visitors d)"
    and "findOne (visitor_key (getClientIP req) (session_key req now rand))
           (visitors (trackVisitor env req now rand d)) = Some (visit_doc env req now rand d)"
proof -
  show 1: "visitors (trackVisitor env req now rand d)
       = upsert (visitor_key (getClientIP req) (session_key req now rand))
           (\<lambda>_. visit_doc env req now rand d) (visit_doc env req now rand d) (visitors d)"
    using assms trackVisitor_visitors [of req env now rand d] by simp
  have "findOne (visitor_key (getClientIP req) (session_key req now rand))
          (upsert (visitor_key (getClientIP req) (session_key req now rand))
             (\<lambda>_. visit_doc env req now rand d) (visit_doc env req now rand d) (visitors d))
      = Some (case findOne (visitor_key (getClientIP req) (session_key req now rand)) (visitors d) of
                None \<Rightarrow> visit_doc env req now rand d | Some x \<Rightarrow> visit_doc env req now rand d)"
    by (rule findOne_upsert) (simp_all add: visitor_key_visit_doc)
  then show "findOne (visitor_key (getClientIP req) (session_key req now rand))
           (visitors (trackVisitor env req now rand d)) = Some (visit_doc env req now rand d)"
    by (simp add: 1 split: option.splits)
qed

text \<open>
  Two page-view requests in a row with the same IP and the same session identifier,
  each on a tracked path, without a crawler signature and with a document that
  \<^verbatim>\<open>save()\<close> accepts: afterwards the Visit Record of (IP, session) has its visit count
  two higher than before (from 0 when there was no record), the two page entries appended
  in order at the end of its page list, and \<^verbatim>\<open>lastVisit\<close> at the second request's time.
\<close>

lemma two_page_views_counted:
  assumes sid: "t_sessionID req1 = Some s" "t_sessionID req2 = Some s" "s \<noteq> []"
    and ip: "getClientIP req1 = ip" "getClientIP req2 = ip"
    and tracked: "\<not> visitor_skip (t_path req1)" "\<not> visitor_skip (t_path req2)"
      "\<not> isBot (or_default (h_user_agent req1) [])" "\<not> isBot (or_default (h_user_agent req2) [])"
    and saved: "save_accepts env (visit_doc env req1 t1 r1 d)"
      "save_accepts env (visit_doc env req2 t2 r2 (trackVisitor env req1 t1 r1 d))"
  shows "\<exists>v. findOne (visitor_key ip s)
               (visitors (trackVisitor env req2 t2 r2 (trackVisitor env req1 t1 r1 d))) = Some v
     \<and> v_visitCount v
         = (case findOne (visitor_key ip s) (visitors d) of None \<Rightarrow> 0 | Some v0 \<Rightarrow> v_visitCount v0) + 2
     \<and> v_pages v
         = (case findOne (visitor_key ip s) (visitors d) of None \<Rightarrow> [] | Some v0 \<Rightarrow> v_pages v0)
           @ [page_of req1 t1, page_of req2 t2]
     \<and> v_lastVisit v = t2"
proof -
  let ?d1 = "trackVisitor env req1 t1 r1 d"
  let ?doc1 = "visit_doc env req1 t1 r1 d"
  let ?doc2 = "visit_doc env req2 t2 r2 ?d1"
  have k1: "session_key req1 t1 r1 = s" and k2: "session_key req2 t2 r2 = s"
    using sid by (simp_all add: session_key_present)
  have f1: "findOne (visitor_key ip s) (visitors ?d1) = Some ?doc1"
    using trackVisitor_saved(2) [OF tracked(1) tracked(3) saved(1)] ip k1 by simp
  have f2: "findOne (visitor_key ip s) (visitors (trackVisitor env req2 t2 r2 ?d1)) = Some ?doc2"
    using trackVisitor_saved(2) [OF tracked(2) tracked(4) saved(2)] ip k2 by simp
  have c1: "v_visitCount ?doc1
      = (case findOne (visitor_key ip s) (visitors d) of None \<Rightarrow> 0 | Some v0 \<Rightarrow> v_visitCount v0) + 1"
    and p1: "v_pages ?doc1
      = (case findOne (visitor_key ip s) (visitors d) of None \<Rightarrow> [] | Some v0 \<Rightarrow> v_pages v0)
        @ [page_of req1 t1]"
    using ip k1 by (simp_all add: visit_doc_fields)
  have c2: "v_visitCount ?doc2 = v_visitCount ?doc1 + 1"
    and p2: "v_pages ?doc2 = v_pages ?doc1 @ [page_of req2 t2]"
    using ip k2 f1 by (simp_all add: visit_doc_fields)
  have "v_visitCount ?doc2
      = (case findOne (visitor_key ip s) (visitors d) of None \<Rightarrow> 0 | Some v0 \<Rightarrow> v_visitCount v0) + 2"
    using c1 c2 by simp
  moreover have "v_pages ?doc2
      = (case findOne (visitor_key ip s) (visitors d) of None \<Rightarrow> [] | Some v0 \<Rightarrow> v_pages v0)
        @ [page_of req1 t1, page_of req2 t2]"
    using p1 p2 by simp
  moreover have "v_lastVisit ?doc2 = t2"
    by (simp add: visit_doc_fields)
  ultimately show ?thesis using f2 by blast
qed

lemma example_accepts:
  "save_accepts example_track_env
     (visit_doc example_track_env (page_request path sid (Some ''Firefox'')) now rand d)
   = (session_key (page_request path sid (Some ''Firefox'')) now rand \<noteq> [])"
  by (simp add: save_accepts_def visit_doc_fields example_track_env_def visitor_valid_def
      or_default_def analyzeUserAgent_def Let_def)

lemma two_page_views_counted_example:
  "\<exists>v. findOne (visitor_key ''10.0.0.7'' ''s1'')
         (visitors
            (trackVisitor example_track_env (page_request ''/b'' (Some ''s1'') (Some ''Firefox''))
               2000 ''0.7''
               (trackVisitor example_track_env (page_request ''/a'' (Some ''s1'') (Some ''Firefox''))
                  1000 ''0.3'' empty_db))) = Some v
     \<and> v_visitCount v = 2
     \<and> v_pages v
         = [\<lparr>p_url = ''/a'', p_title = ''/a'', p_visitTime = 1000, p_duration = None\<rparr>,
            \<lparr>p_url = ''/b'', p_title = ''/b'', p_visitTime = 2000, p_duration = None\<rparr>]
     \<and> v_lastVisit v = 2000"
proof -
  let ?r1 = "page_request ''/a'' (Some ''s1'') (Some ''Firefox'')"
  let ?r2 = "page_request ''/b'' (Some ''s1'') (Some ''Firefox'')"
  have sk: "session_key ?r1 1000 ''0.3'' = ''s1''" "session_key ?r2 2000 ''0.7'' = ''s1''"
    by (simp_all add: session_key_def or_default_def)
  have h: "t_sessionID ?r1 = Some ''s1''" "t_sessionID ?r2 = Some ''s1''" "''s1'' \<noteq> []"
    "getClientIP ?r1 = ''10.0.0.7''" "getClientIP ?r2 = ''10.0.0.7''"
    "\<not> visitor_skip (t_path ?r1)" "\<not> visitor_skip (t_path ?r2)"
    "\<not> isBot (or_default (h_user_agent ?r1) [])" "\<not> isBot (or_default (h_user_agent ?r2) [])"
    "save_accepts example_track_env (visit_doc example_track_env ?r1 1000 ''0.3'' empty_db)"
    "save_accepts example_track_env (visit_doc example_track_env ?r2 2000 ''0.7''
       (trackVisitor example_track_env ?r1 1000 ''0.3'' empty_db))"
    by (simp_all add: visitor_skip_def or_default_def not_bot_Firefox example_accepts sk)
  show ?thesis
    using two_page_views_counted [OF h]
    by (simp add: empty_db_def page_of_def or_default_def)
qed

lemma example_rejects_empty_user_agent:
  "h_user_agent req = None \<Longrightarrow>
     \<not> save_accepts example_track_env (visit_doc example_track_env req now rand d)"
  by (simp add: save_accepts_def visit_doc_fields example_track_env_def visitor_valid_def
      or_default_def)

lemma not_bot_empty: "\<not> isBot []"
  by (simp add: isBot_def)

text \<open>
  C9 fails on the code for requests without a \<^verbatim>\<open>User-Agent\<close> header. Such a request
  passes the path filter and the crawler check, and \<^verbatim>\<open>findOneAndUpdate\<close> upserts its
  record with \<^verbatim>\<open>userAgent: ''\<close>; \<^verbatim>\<open>visitorSchema\<close> declares \<^verbatim>\<open>userAgent\<close> required, so
  \<^verbatim>\<open>visitor.save()\<close> rejects the document, the error is swallowed by the catch block, and
  the pushed page entry and the increment are lost. After two such requests of session
  \<open>s1\<close> on an empty store, the one Visit Record has visit count 0 and no page entry, and
  the site statistics were never written.
\<close>

theorem page_views_without_user_agent_lost:
  "map v_sessionId
     (visitors (trackVisitor example_track_env (page_request ''/b'' (Some ''s1'') None) 2000 ''0.7''
        (trackVisitor example_track_env (page_request ''/a'' (Some ''s1'') None) 1000 ''0.3''
           empty_db))) = [''s1'']
   \<and> map v_visitCount
     (visitors (trackVisitor example_track_env (page_request ''/b'' (Some ''s1'') None) 2000 ''0.7''
        (trackVisitor example_track_env (page_request ''/a'' (Some ''s1'') None) 1000 ''0.3''
           empty_db))) = [0]
   \<and> map v_pages
     (visitors (trackVisitor example_track_env (page_request ''/b'' (Some ''s1'') None) 2000 ''0.7''
        (trackVisitor example_track_env (page_request ''/a'' (Some ''s1'') None) 1000 ''0.3''
           empty_db))) = [[]]
   \<and> site_stats (trackVisitor example_track_env (page_request ''/b'' (Some ''s1'') None) 2000 ''0.7''
        (trackVisitor example_track_env (page_request ''/a'' (Some ''s1'') None) 1000 ''0.3''
           empty_db)) = None"
proof -
  let ?r1 = "page_request ''/a'' (Some ''s1'') None"
  let ?r2 = "page_request ''/b'' (Some ''s1'') None"
  let ?d1 = "trackVisitor example_track_env ?r1 1000 ''0.3'' empty_db"
  let ?d2 = "trackVisitor example_track_env ?r2 2000 ''0.7'' ?d1"
  let ?ins = "visitor_insert example_track_env ?r1 1000 ''s1''"
  have sk: "session_key ?r1 1000 ''0.3'' = ''s1''" "session_key ?r2 2000 ''0.7'' = ''s1''"
    by (simp_all add: session_key_def or_default_def)
  have t: "\<not> visitor_skip (t_path ?r1)" "\<not> visitor_skip (t_path ?r2)"
    "\<not> isBot (or_default (h_user_agent ?r1) [])" "\<not> isBot (or_default (h_user_agent ?r2) [])"
    by (simp_all add: visitor_skip_def or_default_def not_bot_empty)
  have r1: "\<not> save_accepts example_track_env (visit_doc example_track_env ?r1 1000 ''0.3'' empty_db)"
    and r2: "\<not> save_accepts example_track_env (visit_doc example_track_env ?r2 2000 ''0.7'' ?d1)"
    by (simp_all add: example_rejects_empty_user_agent)
  have v1: "visitors ?d1 = [?ins]"
    using trackVisitor_visitors [OF t(1) t(3), where env = example_track_env and now = 1000 and rand = "''0.3''" and d = empty_db] r1
    by (simp add: sk empty_db_def)
  have v2: "visitors ?d2 = [visitor_set example_track_env ?r2 2000 ?ins]"
    using trackVisitor_visitors [OF t(2) t(4), where env = example_track_env and now = 2000 and rand = "''0.7''" and d = ?d1] r2
    by (simp add: sk v1 visitor_key_def visitor_insert_fields)
  have s1: "site_stats ?d1 = None"
    using t(1) t(3) r1 by (simp add: trackVisitor_def Let_def empty_db_def)
  have s2: "site_stats ?d2 = None"
    using t(2) t(4) r2 s1 by (simp add: trackVisitor_def Let_def)
  show ?thesis
    by (simp add: v2 s2 visitor_set_fields visitor_insert_fields)
qed

subsection \<open>Requests without a session identifier\<close>

lemma online_skip_visitor_skip: "online_skip path \<Longrightarrow> visitor_skip path"
  unfolding online_skip_def visitor_skip_def
  by (elim disjE) simp_all

lemma findOne_fresh_visitor:
  "\<forall>v\<in>set vs. v_sessionId v \<noteq> k \<Longrightarrow> findOne (visitor_key ip k) vs = None"
  by (simp add: findOne_None_iff visitor_key_def)

lemma findOne_fresh_online:
  "\<forall>u\<in>set us. ou_sessionId u \<noteq> k \<Longrightarrow> findOne (\<lambda>u. ou_sessionId u = k) us = None"
  by (simp add: findOne_None_iff)

lemma trackVisitor_other_key:
  assumes "\<not> visitor_skip (t_path req)" "\<not> isBot (or_default (h_user_agent req) [])"
    and "save_accepts env (visit_doc env req now rand d)"
    and "k \<noteq> session_key req now rand"
  shows "findOne (visitor_key ip k) (visitors (trackVisitor env req now rand d))
       = findOne (visitor_key ip k) (visitors d)"
proof -
  let ?key = "visitor_key (getClientIP req) (session_key req now rand)"
  let ?doc = "visit_doc env req now rand d"
  have t: "visitors (trackVisitor env req now rand d) = upsert ?key (\<lambda>_. ?doc) ?doc (visitors d)"
    using assms(1-3) by (rule trackVisitor_saved(1))
  have "findOne (visitor_key ip k) (upsert ?key (\<lambda>_. ?doc) ?doc (visitors d))
      = findOne (visitor_key ip k) (visitors d)"
    using assms(4) by (intro findOne_upsert_other) (auto simp: visitor_key_def visit_doc_fields)
  then show ?thesis by (simp add: t)
qed

lemma trackVisitor_length:
  assumes "\<not> visitor_skip (t_path req)" "\<not> isBot (or_default (h_user_agent req) [])"
    and "save_accepts env (visit_doc env req now rand d)"
    and "findOne (visitor_key (getClientIP req) (session_key req now rand)) (visitors d) = None"
  shows "length (visitors (trackVisitor env req now rand d)) = Suc (length (visitors d))"
  using assms(4) trackVisitor_saved(1) [OF assms(1-3)] by (simp add: length_upsert)

lemma trackOnlineUser_found:
  assumes "\<not> online_skip (t_path req)" "\<not> isBot (or_default (h_user_agent req) [])"
  shows "\<exists>u. findOne (\<lambda>u. ou_sessionId u = session_key req now rand)
               (onlineUsers (trackOnlineUser env req now rand d)) = Some u
           \<and> ou_sessionId u = session_key req now rand \<and> ou_lastActivity u = now"
proof -
  let ?sid = "session_key req now rand"
  have t: "onlineUsers (trackOnlineUser env req now rand d)
      = upsert (\<lambda>u. ou_sessionId u = ?sid) (online_set env req now ?sid)
          (online_insert env req now ?sid) (onlineUsers d)"
    using assms by (rule trackOnlineUser_tracked)
  have "findOne (\<lambda>u. ou_sessionId u = ?sid)
          (upsert (\<lambda>u. ou_sessionId u = ?sid) (online_set env req now ?sid)
             (online_insert env req now ?sid) (onlineUsers d))
      = Some (case findOne (\<lambda>u. ou_sessionId u = ?sid) (onlineUsers d) of
                None \<Rightarrow> online_insert env req now ?sid
              | Some x \<Rightarrow> online_set env req now ?sid x)"
    by (rule findOne_upsert) (simp_all add: online_set_fields online_insert_fields)
  then show ?thesis
    by (auto simp: t online_set_fields online_insert_fields split: option.splits)
qed

lemma trackOnlineUser_other_key:
  assumes "\<not> online_skip (t_path req)" "\<not> isBot (or_default (h_user_agent req) [])"
    and "k \<noteq> session_key req now rand"
  shows "findOne (\<lambda>u. ou_sessionId u = k) (onlineUsers (trackOnlineUser env req now rand d))
       = findOne (\<lambda>u. ou_sessionId u = k) (onlineUsers d)"
proof -
  let ?sid = "session_key req now rand"
  have t: "onlineUsers (trackOnlineUser env req now rand d)
      = upsert (\<lambda>u. ou_sessionId u = ?sid) (online_set env req now ?sid)
          (online_insert env req now ?sid) (onlineUsers d)"
    using assms(1,2) by (rule trackOnlineUser_tracked)
  have "findOne (\<lambda>u. ou_sessionId u = k)
          (upsert (\<lambda>u. ou_sessionId u = ?sid) (online_set env req now ?sid)
             (online_insert env req now ?sid) (onlineUsers d))
      = findOne (\<lambda>u. ou_sessionId u = k) (onlineUsers d)"
    using assms(3) by (intro findOne_upsert_other) (simp_all add: online_set_fields online_insert_fields)
  then show ?thesis by (simp add: t)
qed

lemma trackOnlineUser_length:
  assumes "\<not> online_skip (t_path req)" "\<not> isBot (or_default (h_user_agent req) [])"
    and "findOne (\<lambda>u. ou_sessionId u = session_key req now rand) (onlineUsers d) = None"
  shows "length (onlineUsers (trackOnlineUser env req now rand d)) = Suc (length (onlineUsers d))"
  using assms(3) trackOnlineUser_tracked [OF assms(1,2)] by (simp add: length_upsert)

subsection \<open>The guest key determines the clock reading and the draw\<close>

lemma digit_char_inj:
  assumes "a < 10" "b < 10" "digit_char a = digit_char b"
  shows "a = b"
proof -
  have "distinct ''0123456789''" by simp
  moreover have "a < length ''0123456789''" "b < length ''0123456789''"
    using assms by simp_all
  ultimately show ?thesis
    using assms(3) unfolding digit_char_def by (simp only: nth_eq_iff_index_eq)
qed

lemma digit_char_mem: "a < 10 \<Longrightarrow> digit_char a \<in> set ''0123456789''"
  unfolding digit_char_def by (rule nth_mem) simp

lemma decimal_nat_digits: "set (decimal_nat n) \<subseteq> set ''0123456789''"
proof (induction n rule: decimal_nat.induct)
  case (1 n)
  show ?case
  proof (cases "n < 10")
    case True
    then show ?thesis
      using digit_char_mem [of n] by (subst decimal_nat.simps) simp
  next
    case False
    have "n mod 10 < 10" by simp
    then have "digit_char (n mod 10) \<in> set ''0123456789''" by (rule digit_char_mem)
    with False 1 show ?thesis
      by (subst decimal_nat.simps) simp
  qed
qed

lemma decimal_nat_not_Nil: "decimal_nat n \<noteq> []"
  by (subst decimal_nat.simps) simp

lemma decimal_nat_inj: "decimal_nat n = decimal_nat m \<Longrightarrow> n = m"
proof (induction n arbitrary: m rule: decimal_nat.induct)
  case (1 n)
  show ?case
  proof (cases "n < 10")
    case n: True
    show ?thesis
    proof (cases "m < 10")
      case True
      with n 1(2) have "digit_char n = digit_char m"
        by (simp add: decimal_nat.simps [of n] decimal_nat.simps [of m])
      with n True show ?thesis by (rule digit_char_inj)
    next
      case False
      with n 1(2) have "[digit_char n] = decimal_nat (m div 10) @ [digit_char (m mod 10)]"
        by (simp add: decimal_nat.simps [of n] decimal_nat.simps [of m])
      then show ?thesis using decimal_nat_not_Nil [of "m div 10"] by simp
    qed
  next
    case n: False
    show ?thesis
    proof (cases "m < 10")
      case True
      with n 1(2) have "decimal_nat (n div 10) @ [digit_char (n mod 10)] = [digit_char m]"
        by (simp add: decimal_nat.simps [of n] decimal_nat.simps [of m])
      then show ?thesis using decimal_nat_not_Nil [of "n div 10"] by simp
    next
      case False
      with n 1(2) have e: "decimal_nat (n div 10) = decimal_nat (m div 10)"
        "digit_char (n mod 10) = digit_char (m mod 10)"
        by (simp_all add: decimal_nat.simps [of n] decimal_nat.simps [of m])
      from e(1) n have "n div 10 = m div 10" by (rule 1(1) [rotated])
      moreover have "n mod 10 = m mod 10"
        using e(2) by (intro digit_char_inj) simp_all
      ultimately show ?thesis
        by (metis div_mult_mod_eq)
    qed
  qed
qed

lemma decimal_inj: "decimal i = decimal j \<Longrightarrow> i = j"
proof -
  assume e: "decimal i = decimal j"
  have no_minus: "CHR ''-'' \<notin> set (decimal_nat n)" for n
    using decimal_nat_digits [of n] by auto
  show ?thesis
  proof (cases "i < 0")
    case i: True
    show ?thesis
    proof (cases "j < 0")
      case True
      with i e have "decimal_nat (nat (- i)) = decimal_nat (nat (- j))"
        by (simp add: decimal_def)
      then have "nat (- i) = nat (- j)" by (rule decimal_nat_inj)
      with i True show ?thesis by simp
    next
      case False
      with i e have "CHR ''-'' # decimal_nat (nat (- i)) = decimal_nat (nat j)"
        by (simp add: decimal_def)
      then have "CHR ''-'' \<in> set (decimal_nat (nat j))" by (metis list.set_intros(1))
      then show ?thesis using no_minus by blast
    qed
  next
    case i: False
    show ?thesis
    proof (cases "j < 0")
      case True
      with i e have "decimal_nat (nat i) = CHR ''-'' # decimal_nat (nat (- j))"
        by (simp add: decimal_def)
      then have "CHR ''-'' \<in> set (decimal_nat (nat i))" by (metis list.set_intros(1))
      then show ?thesis using no_minus by blast
    next
      case False
      with i e have "decimal_nat (nat i) = decimal_nat (nat j)"
        by (simp add: decimal_def)
      then have "nat i = nat j" by (rule decimal_nat_inj)
      with i False show ?thesis by simp
    qed
  qed
qed

lemma decimal_no_separator: "CHR ''_'' \<notin> set (decimal i)"
proof -
  have "CHR ''_'' \<notin> set (decimal_nat n)" for n
    using decimal_nat_digits [of n] by auto
  then show ?thesis by (simp add: decimal_def)
qed

lemma append_separator_inj:
  "c \<notin> set a \<Longrightarrow> c \<notin> set a' \<Longrightarrow> a @ c # b = a' @ c # b' \<Longrightarrow> a = a' \<and> b = b'"
proof (induction a arbitrary: a')
  case Nil
  then show ?case by (cases a') auto
next
  case (Cons x a)
  then show ?case by (cases a') auto
qed

lemma guest_key_inj: "guest_key t r = guest_key t' r' \<Longrightarrow> t = t' \<and> r = r'"
proof -
  assume "guest_key t r = guest_key t' r'"
  then have "decimal t @ CHR ''_'' # r = decimal t' @ CHR ''_'' # r'"
    by (simp add: guest_key_def)
  then have "decimal t = decimal t' \<and> r = r'"
    by (intro append_separator_inj [of "CHR ''_''"]) (simp_all add: decimal_no_separator)
  then show ?thesis using decimal_inj by blast
qed

subsection \<open>Two requests without a session identifier\<close>

text \<open>
  C10, as the code has it. A request without a session identifier is tracked under the
  key \<^verbatim>\<open>guest_<clock>_<random>\<close>, drawn in each tracking call, and the key fixes both the
  clock reading and the draw. Take two such requests from one IP, on tracked paths, without
  a crawler signature and with documents that \<^verbatim>\<open>save()\<close> accepts. When the two calls
  differ in the clock reading or in the draw, their keys differ and each request has its
  own Visit Record, one visit and one page entry more than what the store held under its
  key; when the store held nothing under the two keys, the visit log has two more records,
  each with visit count 1 and its own single page entry. The same holds of the presence
  store and the keys drawn by \<^verbatim>\<open>trackOnlineUser\<close>. Two calls with the same clock reading
  and the same draw share one key and one record.
\<close>

theorem sessionless_requests_not_deduplicated:
  assumes nosid: "\<not> truthy (t_sessionID req1)" "\<not> truthy (t_sessionID req2)"
    and ip: "getClientIP req1 = ip" "getClientIP req2 = ip"
    and tracked: "\<not> visitor_skip (t_path req1)" "\<not> visitor_skip (t_path req2)"
      "\<not> isBot (or_default (h_user_agent req1) [])" "\<not> isBot (or_default (h_user_agent req2) [])"
    and draws: "t1 \<noteq> t2 \<or> r1 \<noteq> r2" "t1' \<noteq> t2' \<or> r1' \<noteq> r2'"
    and saved: "save_accepts env (visit_doc env req1 t1 r1 d)"
      "save_accepts env (visit_doc env req2 t2 r2 (trackVisitor env req1 t1 r1 d))"
  shows "guest_key t1 r1 \<noteq> guest_key t2 r2 \<and> guest_key t1' r1' \<noteq> guest_key t2' r2'
     \<and> (\<exists>v1 v2.
          findOne (visitor_key ip (guest_key t1 r1))
            (visitors (trackVisitor env req2 t2 r2 (trackVisitor env req1 t1 r1 d))) = Some v1
          \<and> findOne (visitor_key ip (guest_key t2 r2))
            (visitors (trackVisitor env req2 t2 r2 (trackVisitor env req1 t1 r1 d))) = Some v2
          \<and> v_sessionId v1 = guest_key t1 r1 \<and> v_sessionId v2 = guest_key t2 r2
          \<and> v_visitCount v1
              = (case findOne (visitor_key ip (guest_key t1 r1)) (visitors d) of
                   None \<Rightarrow> 0 | Some v0 \<Rightarrow> v_visitCount v0) + 1
          \<and> v_pages v1
              = (case findOne (visitor_key ip (guest_key t1 r1)) (visitors d) of
                   None \<Rightarrow> [] | Some v0 \<Rightarrow> v_pages v0) @ [page_of req1 t1]
          \<and> v_visitCount v2
              = (case findOne (visitor_key ip (guest_key t2 r2)) (visitors d) of
                   None \<Rightarrow> 0 | Some v0 \<Rightarrow> v_visitCount v0) + 1
          \<and> v_pages v2
              = (case findOne (visitor_key ip (guest_key t2 r2)) (visitors d) of
                   None \<Rightarrow> [] | Some v0 \<Rightarrow> v_pages v0) @ [page_of req2 t2]
          \<and> ((\<forall>v\<in>set (visitors d).
                 v_sessionId v \<noteq> guest_key t1 r1 \<and> v_sessionId v \<noteq> guest_key t2 r2) \<longrightarrow>
               length (visitors (trackVisitor env req2 t2 r2 (trackVisitor env req1 t1 r1 d)))
                 = length (visitors d) + 2
               \<and> v_visitCount v1 = 1 \<and> v_pages v1 = [page_of req1 t1]
               \<and> v_visitCount v2 = 1 \<and> v_pages v2 = [page_of req2 t2]))
     \<and> (\<exists>u1 u2.
          findOne (\<lambda>u. ou_sessionId u = guest_key t1' r1')
            (onlineUsers (trackOnlineUser env req2 t2' r2' (trackOnlineUser env req1 t1' r1' d)))
            = Some u1
          \<and> findOne (\<lambda>u. ou_sessionId u = guest_key t2' r2')
            (onlineUsers (trackOnlineUser env req2 t2' r2' (trackOnlineUser env req1 t1' r1' d)))
            = Some u2
          \<and> ou_sessionId u1 = guest_key t1' r1' \<and> ou_sessionId u2 = guest_key t2' r2'
          \<and> ou_lastActivity u1 = t1' \<and> ou_lastActivity u2 = t2')
     \<and> ((\<forall>u\<in>set (onlineUsers d).
            ou_sessionId u \<noteq> guest_key t1' r1' \<and> ou_sessionId u \<noteq> guest_key t2' r2') \<longrightarrow>
          length (onlineUsers (trackOnlineUser env req2 t2' r2' (trackOnlineUser env req1 t1' r1' d)))
            = length (onlineUsers d) + 2)"
proof (intro conjI)
  show kv: "guest_key t1 r1 \<noteq> guest_key t2 r2"
    using draws(1) guest_key_inj by blast
  show ko: "guest_key t1' r1' \<noteq> guest_key t2' r2'"
    using draws(2) guest_key_inj by blast
  let ?d1 = "trackVisitor env req1 t1 r1 d"
  let ?d2 = "trackVisitor env req2 t2 r2 ?d1"
  let ?doc1 = "visit_doc env req1 t1 r1 d"
  let ?doc2 = "visit_doc env req2 t2 r2 ?d1"
  let ?k1 = "visitor_key ip (guest_key t1 r1)"
  let ?k2 = "visitor_key ip (guest_key t2 r2)"
  have k1: "session_key req1 t1 r1 = guest_key t1 r1" and k2: "session_key req2 t2 r2 = guest_key t2 r2"
    using nosid by (simp_all add: session_key_absent)
  have f1: "findOne ?k1 (visitors ?d1) = Some ?doc1"
    using trackVisitor_saved(2) [OF tracked(1) tracked(3) saved(1)] ip k1 by simp
  have f1': "findOne ?k1 (visitors ?d2) = Some ?doc1"
    using trackVisitor_other_key [OF tracked(2) tracked(4) saved(2), where k = "guest_key t1 r1" and ip = ip]
      kv k2 f1 by simp
  have f2: "findOne ?k2 (visitors ?d2) = Some ?doc2"
    using trackVisitor_saved(2) [OF tracked(2) tracked(4) saved(2)] ip k2 by simp
  have o2: "findOne ?k2 (visitors ?d1) = findOne ?k2 (visitors d)"
    using trackVisitor_other_key [OF tracked(1) tracked(3) saved(1), where k = "guest_key t2 r2" and ip = ip]
      kv k1 by simp
  have s: "v_sessionId ?doc1 = guest_key t1 r1" "v_sessionId ?doc2 = guest_key t2 r2"
    by (simp_all add: visit_doc_fields k1 k2)
  have c1: "v_visitCount ?doc1
      = (case findOne ?k1 (visitors d) of None \<Rightarrow> 0 | Some v0 \<Rightarrow> v_visitCount v0) + 1"
    and p1: "v_pages ?doc1
      = (case findOne ?k1 (visitors d) of None \<Rightarrow> [] | Some v0 \<Rightarrow> v_pages v0) @ [page_of req1 t1]"
    using ip k1 by (simp_all add: visit_doc_fields)
  have c2: "v_visitCount ?doc2
      = (case findOne ?k2 (visitors d) of None \<Rightarrow> 0 | Some v0 \<Rightarrow> v_visitCount v0) + 1"
    and p2: "v_pages ?doc2
      = (case findOne ?k2 (visitors d) of None \<Rightarrow> [] | Some v0 \<Rightarrow> v_pages v0) @ [page_of req2 t2]"
    using ip k2 o2 by (simp_all add: visit_doc_fields)
  have unused: "length (visitors ?d2) = length (visitors d) + 2
      \<and> v_visitCount ?doc1 = 1 \<and> v_pages ?doc1 = [page_of req1 t1]
      \<and> v_visitCount ?doc2 = 1 \<and> v_pages ?doc2 = [page_of req2 t2]"
    if fresh: "\<forall>v\<in>set (visitors d).
        v_sessionId v \<noteq> guest_key t1 r1 \<and> v_sessionId v \<noteq> guest_key t2 r2"
  proof -
    have n1: "findOne ?k1 (visitors d) = None" and n2: "findOne ?k2 (visitors d) = None"
      using fresh by (simp_all add: findOne_fresh_visitor)
    have l1: "length (visitors ?d1) = Suc (length (visitors d))"
      using n1 ip k1 by (intro trackVisitor_length [OF tracked(1) tracked(3) saved(1)]) simp
    have l2: "length (visitors ?d2) = Suc (length (visitors ?d1))"
      using n2 o2 ip k2 by (intro trackVisitor_length [OF tracked(2) tracked(4) saved(2)]) simp
    show ?thesis
      using l1 l2 c1 p1 c2 p2 n1 n2 by simp
  qed
  show "\<exists>v1 v2.
          findOne ?k1 (visitors ?d2) = Some v1 \<and> findOne ?k2 (visitors ?d2) = Some v2
          \<and> v_sessionId v1 = guest_key t1 r1 \<and> v_sessionId v2 = guest_key t2 r2
          \<and> v_visitCount v1
              = (case findOne ?k1 (visitors d) of None \<Rightarrow> 0 | Some v0 \<Rightarrow> v_visitCount v0) + 1
          \<and> v_pages v1
              = (case findOne ?k1 (visitors d) of None \<Rightarrow> [] | Some v0 \<Rightarrow> v_pages v0)
                @ [page_of req1 t1]
          \<and> v_visitCount v2
              = (case findOne ?k2 (visitors d) of None \<Rightarrow> 0 | Some v0 \<Rightarrow> v_visitCount v0) + 1
          \<and> v_pages v2
              = (case findOne ?k2 (visitors d) of None \<Rightarrow> [] | Some v0 \<Rightarrow> v_pages v0)
                @ [page_of req2 t2]
          \<and> ((\<forall>v\<in>set (visitors d).
                 v_sessionId v \<noteq> guest_key t1 r1 \<and> v_sessionId v \<noteq> guest_key t2 r2) \<longrightarrow>
               length (visitors ?d2) = length (visitors d) + 2
               \<and> v_visitCount v1 = 1 \<and> v_pages v1 = [page_of req1 t1]
               \<and> v_visitCount v2 = 1 \<and> v_pages v2 = [page_of req2 t2])"
    apply (rule exI [of _ ?doc1])
    apply (rule exI [of _ ?doc2])
    using f1' f2 s c1 p1 c2 p2 unused by (intro conjI impI) simp_all
  let ?e1 = "trackOnlineUser env req1 t1' r1' d"
  let ?e2 = "trackOnlineUser env req2 t2' r2' ?e1"
  have o: "\<not> online_skip (t_path req1)" "\<not> online_skip (t_path req2)"
    using tracked(1,2) online_skip_visitor_skip by blast+
  have j1: "session_key req1 t1' r1' = guest_key t1' r1'"
    and j2: "session_key req2 t2' r2' = guest_key t2' r2'"
    using nosid by (simp_all add: session_key_absent)
  obtain u1 where u1: "findOne (\<lambda>u. ou_sessionId u = guest_key t1' r1') (onlineUsers ?e1) = Some u1"
    "ou_sessionId u1 = guest_key t1' r1'" "ou_lastActivity u1 = t1'"
    using trackOnlineUser_found [OF o(1) tracked(3), where env = env and now = t1' and rand = r1' and d = d] j1 by auto
  have u1': "findOne (\<lambda>u. ou_sessionId u = guest_key t1' r1') (onlineUsers ?e2) = Some u1"
    using trackOnlineUser_other_key [OF o(2) tracked(4), where k = "guest_key t1' r1'" and now = t2' and rand = r2' and env = env and d = ?e1]
      ko j2 u1(1) by simp
  obtain u2 where u2: "findOne (\<lambda>u. ou_sessionId u = guest_key t2' r2') (onlineUsers ?e2) = Some u2"
    "ou_sessionId u2 = guest_key t2' r2'" "ou_lastActivity u2 = t2'"
    using trackOnlineUser_found [OF o(2) tracked(4), where env = env and now = t2' and rand = r2' and d = ?e1] j2 by auto
  show "\<exists>u1 u2.
          findOne (\<lambda>u. ou_sessionId u = guest_key t1' r1') (onlineUsers ?e2) = Some u1
          \<and> findOne (\<lambda>u. ou_sessionId u = guest_key t2' r2') (onlineUsers ?e2) = Some u2
          \<and> ou_sessionId u1 = guest_key t1' r1' \<and> ou_sessionId u2 = guest_key t2' r2'
          \<and> ou_lastActivity u1 = t1' \<and> ou_lastActivity u2 = t2'"
    using u1' u1(2,3) u2 by blast
  show "(\<forall>u\<in>set (onlineUsers d).
            ou_sessionId u \<noteq> guest_key t1' r1' \<and> ou_sessionId u \<noteq> guest_key t2' r2') \<longrightarrow>
          length (onlineUsers ?e2) = length (onlineUsers d) + 2"
  proof
    assume fresh: "\<forall>u\<in>set (onlineUsers d).
        ou_sessionId u \<noteq> guest_key t1' r1' \<and> ou_sessionId u \<noteq> guest_key t2' r2'"
    have n1: "findOne (\<lambda>u. ou_sessionId u = session_key req1 t1' r1') (onlineUsers d) = None"
      using fresh by (simp add: j1 findOne_fresh_online)
    have "findOne (\<lambda>u. ou_sessionId u = guest_key t2' r2') (onlineUsers ?e1)
        = findOne (\<lambda>u. ou_sessionId u = guest_key t2' r2') (onlineUsers d)"
      using trackOnlineUser_other_key [OF o(1) tracked(3), where k = "guest_key t2' r2'" and now = t1' and rand = r1' and env = env and d = d]
        ko j1 by simp
    then have n2: "findOne (\<lambda>u. ou_sessionId u = session_key req2 t2' r2') (onlineUsers ?e1) = None"
      using fresh by (simp add: j2 findOne_fresh_online)
    have "length (onlineUsers ?e1) = Suc (length (onlineUsers d))"
      by (rule trackOnlineUser_length [OF o(1) tracked(3) n1])
    moreover have "length (onlineUsers ?e2) = Suc (length (onlineUsers ?e1))"
      by (rule trackOnlineUser_length [OF o(2) tracked(4) n2])
    ultimately show "length (onlineUsers ?e2) = length (onlineUsers d) + 2" by simp
  qed
qed

lemma guest_key_examples:
  "guest_key 1000 ''0.3'' = ''guest_1000_0.3''"
  "guest_key 2000 ''0.7'' = ''guest_2000_0.7''"
  by (simp_all add: guest_key_def decimal_def decimal_nat.simps digit_char_def)

theorem sessionless_requests_not_deduplicated_witness:
  "guest_key 1000 ''0.3'' \<noteq> guest_key 2000 ''0.7''
   \<and> length (visitors
      (trackVisitor example_track_env (page_request ''/a'' None (Some ''Firefox'')) 2000 ''0.7''
         (trackVisitor example_track_env (page_request ''/a'' None (Some ''Firefox'')) 1000 ''0.3''
            empty_db))) = 2
   \<and> (\<exists>v1 v2.
        findOne (visitor_key ''10.0.0.7'' ''guest_1000_0.3'')
          (visitors
            (trackVisitor example_track_env (page_request ''/a'' None (Some ''Firefox'')) 2000 ''0.7''
               (trackVisitor example_track_env (page_request ''/a'' None (Some ''Firefox'')) 1000
                  ''0.3'' empty_db))) = Some v1
        \<and> findOne (visitor_key ''10.0.0.7'' ''guest_2000_0.7'')
          (visitors
            (trackVisitor example_track_env (page_request ''/a'' None (Some ''Firefox'')) 2000 ''0.7''
               (trackVisitor example_track_env (page_request ''/a'' None (Some ''Firefox'')) 1000
                  ''0.3'' empty_db))) = Some v2
        \<and> v_visitCount v1 = 1 \<and> v_visitCount v2 = 1
        \<and> length (v_pages v1) = 1 \<and> length (v_pages v2) = 1)
   \<and> length (onlineUsers
      (trackOnlineUser example_track_env (page_request ''/a'' None (Some ''Firefox'')) 2000 ''0.7''
         (trackOnlineUser example_track_env (page_request ''/a'' None (Some ''Firefox'')) 1000 ''0.3''
            empty_db))) = 2"
proof -
  let ?r = "page_request ''/a'' None (Some ''Firefox'')"
  have sk: "session_key ?r 1000 ''0.3'' = ''guest_1000_0.3''"
    "session_key ?r 2000 ''0.7'' = ''guest_2000_0.7''"
    by (simp_all add: session_key_def or_default_def guest_key_examples)
  have h: "\<not> truthy (t_sessionID ?r)" "\<not> truthy (t_sessionID ?r)"
    "getClientIP ?r = ''10.0.0.7''" "getClientIP ?r = ''10.0.0.7''"
    "\<not> visitor_skip (t_path ?r)" "\<not> visitor_skip (t_path ?r)"
    "\<not> isBot (or_default (h_user_agent ?r) [])" "\<not> isBot (or_default (h_user_agent ?r) [])"
    "(1000::int) \<noteq> 2000 \<or> ''0.3'' \<noteq> ''0.7''"
    "(1000::int) \<noteq> 2000 \<or> ''0.3'' \<noteq> ''0.7''"
    "save_accepts example_track_env (visit_doc example_track_env ?r 1000 ''0.3'' empty_db)"
    "save_accepts example_track_env (visit_doc example_track_env ?r 2000 ''0.7''
       (trackVisitor example_track_env ?r 1000 ''0.3'' empty_db))"
    by (simp_all add: truthy_def visitor_skip_def or_default_def not_bot_Firefox example_accepts sk)
  have e: "\<forall>v\<in>set (visitors empty_db).
        v_sessionId v \<noteq> guest_key 1000 ''0.3'' \<and> v_sessionId v \<noteq> guest_key 2000 ''0.7''"
    "\<forall>u\<in>set (onlineUsers empty_db).
        ou_sessionId u \<noteq> guest_key 1000 ''0.3'' \<and> ou_sessionId u \<noteq> guest_key 2000 ''0.7''"
    "length (visitors empty_db) = 0" "length (onlineUsers empty_db) = 0"
    by (simp_all add: empty_db_def)
  show ?thesis
    using sessionless_requests_not_deduplicated [OF h] e
    unfolding guest_key_examples
    by (auto simp: empty_db_def)
qed

text \<open>
  C10 as stated fails when the two calls read the same clock value and draw the same
  number: both requests then use the key \<open>guest_1000_0.3\<close>, and the second increments the
  record of the first. One Visit Record with visit count 2 and two page entries, and one
  presence record.
\<close>

theorem same_draw_shares_record_counterexample:
  "map v_sessionId
     (visitors (trackVisitor example_track_env (page_request ''/a'' None (Some ''Firefox'')) 1000 ''0.3''
        (trackVisitor example_track_env (page_request ''/a'' None (Some ''Firefox'')) 1000 ''0.3''
           empty_db))) = [''guest_1000_0.3'']
   \<and> map v_visitCount
     (visitors (trackVisitor example_track_env (page_request ''/a'' None (Some ''Firefox'')) 1000 ''0.3''
        (trackVisitor example_track_env (page_request ''/a'' None (Some ''Firefox'')) 1000 ''0.3''
           empty_db))) = [2]
   \<and> map (\<lambda>v. length (v_pages v))
     (visitors (trackVisitor example_track_env (page_request ''/a'' None (Some ''Firefox'')) 1000 ''0.3''
        (trackVisitor example_track_env (page_request ''/a'' None (Some ''Firefox'')) 1000 ''0.3''
           empty_db))) = [2]
   \<and> map ou_sessionId
     (onlineUsers (trackOnlineUser example_track_env (page_request ''/a'' None (Some ''Firefox'')) 1000 ''0.3''
        (trackOnlineUser example_track_env (page_request ''/a'' None (Some ''Firefox'')) 1000 ''0.3''
           empty_db))) = [''guest_1000_0.3'']"
proof -
  let ?r = "page_request ''/a'' None (Some ''Firefox'')"
  let ?d1 = "trackVisitor example_track_env ?r 1000 ''0.3'' empty_db"
  let ?d2 = "trackVisitor example_track_env ?r 1000 ''0.3'' ?d1"
  let ?doc1 = "visit_doc example_track_env ?r 1000 ''0.3'' empty_db"
  let ?doc2 = "visit_doc example_track_env ?r 1000 ''0.3'' ?d1"
  have sk: "session_key ?r 1000 ''0.3'' = ''guest_1000_0.3''"
    by (simp add: session_key_def or_default_def guest_key_examples)
  have t: "\<not> visitor_skip (t_path ?r)" "\<not> isBot (or_default (h_user_agent ?r) [])"
    "\<not> online_skip (t_path ?r)"
    by (simp_all add: visitor_skip_def online_skip_def or_default_def not_bot_Firefox)
  have a1: "save_accepts example_track_env ?doc1" and a2: "save_accepts example_track_env ?doc2"
    by (simp_all add: example_accepts sk)
  have v1: "visitors ?d1 = [?doc1]"
    using trackVisitor_saved(1) [OF t(1) t(2) a1] by (simp add: empty_db_def)
  have k: "visitor_key ''10.0.0.7'' ''guest_1000_0.3'' ?doc1"
    by (simp add: visitor_key_def visit_doc_fields sk)
  have v2: "visitors ?d2 = [?doc2]"
    using trackVisitor_saved(1) [OF t(1) t(2) a2] k by (simp add: v1 sk)
  have c1: "v_visitCount ?doc1 = 1" "length (v_pages ?doc1) = 1"
    by (simp_all add: visit_doc_fields empty_db_def)
  have c2: "v_visitCount ?doc2 = 2" "length (v_pages ?doc2) = 2" "v_sessionId ?doc2 = ''guest_1000_0.3''"
    using k c1 by (simp_all add: visit_doc_fields v1 sk)
  have o: "map ou_sessionId
     (onlineUsers (trackOnlineUser example_track_env ?r 1000 ''0.3''
        (trackOnlineUser example_track_env ?r 1000 ''0.3'' empty_db))) = [''guest_1000_0.3'']"
    by (simp add: trackOnlineUser_tracked [OF t(3) t(2)] sk empty_db_def
        online_insert_fields online_set_fields)
  show ?thesis
    using c2 o by (simp add: v2)
qed

subsection \<open>Aggregate queries\<close>

















end
